theory Spec2Isabelle
  imports Complex_Main
begin

section \<open>Data model\<close>

text \<open>
  The enumerations and records of the horary engine. Python floats are modelled as
  \<open>real\<close> (exact arithmetic), Python ints as \<open>int\<close>. The accessors of the
  enumerations (\<open>Sign.ruler\<close>, \<open>Sign.start_degree\<close>, \<open>Aspect.degrees\<close>) live in
  the module \<open>models\<close>, which the judgment engine and the calculator import.
\<close>

datatype Planet = SUN | MOON | MERCURY | VENUS | MARS | JUPITER | SATURN

datatype Sign = ARIES | TAURUS | GEMINI | CANCER | LEO | VIRGO
  | LIBRA | SCORPIO | SAGITTARIUS | CAPRICORN | AQUARIUS | PISCES

datatype Aspect = CONJUNCTION | SEXTILE | SQUARE | TRINE | OPPOSITION

datatype SolarCondition = CAZIMI | COMBUSTION | UNDER_BEAMS | FREE

text \<open>The iteration order of \<open>chart.planets.items()\<close>: the insertion order of
  \<open>planets_swe\<close> in the calculator.\<close>

definition planet_list :: "Planet list" where
  "planet_list = [SUN, MOON, MERCURY, VENUS, MARS, JUPITER, SATURN]"

text \<open>Modelled from the spec: the iteration order of \<open>for aspect_type in Aspect\<close>
  (the enum is declared in models.py); the spec lists the five aspects as conjunction,
  sextile, square, trine, opposition.\<close>

definition aspect_list :: "Aspect list" where
  "aspect_list = [CONJUNCTION, SEXTILE, SQUARE, TRINE, OPPOSITION]"

text \<open>Modelled from the spec: \<open>Aspect.degrees\<close> (models.py): conjunction 0, sextile 60,
  square 90, trine 120, opposition 180.\<close>

fun degrees :: "Aspect \<Rightarrow> real" where
  "degrees CONJUNCTION = 0"
| "degrees SEXTILE = 60"
| "degrees SQUARE = 90"
| "degrees TRINE = 120"
| "degrees OPPOSITION = 180"

text \<open>Modelled from the spec: \<open>Sign.start_degree\<close> (models.py): twelve signs, each
  owning a 30 degree span starting at a multiple of 30.\<close>

fun start_degree :: "Sign \<Rightarrow> real" where
  "start_degree ARIES = 0"
| "start_degree TAURUS = 30"
| "start_degree GEMINI = 60"
| "start_degree CANCER = 90"
| "start_degree LEO = 120"
| "start_degree VIRGO = 150"
| "start_degree LIBRA = 180"
| "start_degree SCORPIO = 210"
| "start_degree SAGITTARIUS = 240"
| "start_degree CAPRICORN = 270"
| "start_degree AQUARIUS = 300"
| "start_degree PISCES = 330"

text \<open>Modelled from the spec: \<open>Sign.ruler\<close> (models.py), the traditional ruling planet
  of each sign; the detriment table of the calculator (the signs opposite a planet's
  rulerships) fixes the same assignment.\<close>

fun ruler :: "Sign \<Rightarrow> Planet" where
  "ruler ARIES = MARS"
| "ruler TAURUS = VENUS"
| "ruler GEMINI = MERCURY"
| "ruler CANCER = MOON"
| "ruler LEO = SUN"
| "ruler VIRGO = MERCURY"
| "ruler LIBRA = VENUS"
| "ruler SCORPIO = MARS"
| "ruler SAGITTARIUS = JUPITER"
| "ruler CAPRICORN = SATURN"
| "ruler AQUARIUS = SATURN"
| "ruler PISCES = JUPITER"

text \<open>\<open>self.exaltations\<close> of the calculator: every planet has an entry.\<close>

fun exaltations :: "Planet \<Rightarrow> Sign" where
  "exaltations SUN = ARIES"
| "exaltations MOON = TAURUS"
| "exaltations MERCURY = VIRGO"
| "exaltations VENUS = PISCES"
| "exaltations MARS = CAPRICORN"
| "exaltations JUPITER = CANCER"
| "exaltations SATURN = LIBRA"

text \<open>Python's \<open>x % m\<close> on floats with a positive modulus: the result has the sign of
  the modulus.\<close>

definition fmod :: "real \<Rightarrow> real \<Rightarrow> real" where
  "fmod x m = x - m * of_int \<lfloor>x / m\<rfloor>"

record PlanetPosition =
  planet :: Planet
  longitude :: real
  latitude :: real
  house :: int
  sign :: Sign
  dignity_score :: int
  retrograde :: bool
  speed :: real

record AspectInfo =
  planet1 :: Planet
  planet2 :: Planet
  aspect :: Aspect
  orb :: real
  applying :: bool
  degrees_to_exact :: real

record SolarAnalysis =
  sa_planet :: Planet
  distance_from_sun :: real
  condition :: SolarCondition
  exact_cazimi :: bool
  traditional_exception :: bool

text \<open>Fragments of the formatted strings the engine builds: a literal, a float
  formatted with one decimal, a float printed as it is, an int printed as it is, an int
  printed with its sign, and the display names of the enumerations. A text is a list of fragments, and
  string concatenation is list append.\<close>

datatype frag = S string | F1 real | Num real | IntNum int | SignedInt int
  | PlanetValue Planet | SignName Sign | AspectName Aspect | AspectNameLower Aspect

type_synonym msg = "frag list"

record LunarAspect =
  la_planet :: Planet
  la_aspect :: Aspect
  la_orb :: real
  degrees_difference :: real
  perfection_eta_days :: real
  perfection_eta_description :: msg
  la_applying :: bool

record HoraryChart =
  planets :: "Planet \<Rightarrow> PlanetPosition"
  aspects :: "AspectInfo list"
  houses :: "real list"
  house_rulers :: "int \<rightharpoonup> Planet"
  ascendant :: real
  midheaven :: real
  solar_analyses :: "Planet \<rightharpoonup> SolarAnalysis"
  julian_day :: real
  moon_last_aspect :: "LunarAspect option"
  moon_next_aspect :: "LunarAspect option"

section \<open>Configuration\<close>

text \<open>The configuration object \<open>cfg()\<close> is loaded from a file outside the engine; it
  is a parameter of every function that reads it. The records follow its nesting.\<close>

record solar_conf =
  cazimi_bonus :: int
  combustion_penalty :: int

record perfection_conf =
  direct_with_mutual_rulership :: int
  direct_with_mutual_exaltation :: int
  direct_basic :: int
  translation_of_light :: int
  collection_of_light :: int
  reception_only :: int

record lunar_confidence_caps_conf =
  cap_favorable :: int
  cap_unfavorable :: int
  cap_neutral :: int

record denial_conf =
  prohibition :: int
  frustration_retrograde :: int

record confidence_conf =
  base_confidence :: int
  solar :: solar_conf
  perfection :: perfection_conf
  lunar_confidence_caps :: lunar_confidence_caps_conf
  denial :: denial_conf
  mutual_exaltation_bonus :: real

record via_combusta_conf =
  libra_start :: real
  scorpio_full :: bool
  capricorn_start :: real

record radicality_conf =
  asc_too_early :: real
  asc_too_late :: real
  saturn_7th_enabled :: bool
  via_combusta_enabled :: bool
  via_combusta :: via_combusta_conf

record void_exceptions_conf =
  exc_cancer :: bool
  exc_sagittarius :: bool
  exc_taurus :: bool

record translation_conf =
  require_speed_advantage :: bool
  require_proper_sequence :: bool

record collection_conf =
  require_collector_dignity :: bool
  minimum_dignity_score :: int

record phase_bonus_conf =
  new_moon :: int
  waxing_crescent :: int
  first_quarter :: int
  waxing_gibbous :: int
  full_moon :: int
  waning_gibbous :: int
  last_quarter :: int
  waning_crescent :: int

record speed_bonus_conf =
  very_slow :: int
  slow :: int
  average :: int
  fast :: int
  very_fast :: int

record angularity_bonus_conf =
  angular :: int
  succedent :: int
  cadent :: int

record moon_conf =
  void_rule :: string
  void_exceptions :: void_exceptions_conf
  translation :: translation_conf
  collection :: collection_conf
  phase_bonus :: phase_bonus_conf
  speed_bonus :: speed_bonus_conf
  angularity_bonus :: angularity_bonus_conf

record orbs_conf =
  void_orb_deg :: real
  cazimi_orb_arcmin :: real
  combustion_orb :: real
  under_beams_orb :: real

record timing_conf =
  stationary_speed_threshold :: real
  timing_precision_days :: real

record config =
  confidence :: confidence_conf
  radicality :: radicality_conf
  automatic_denial :: bool
  moon :: moon_conf
  orbs :: orbs_conf
  timing :: timing_conf

section \<open>Moon accidental dignities (judgment engine)\<close>

text \<open>The elongation \<open>_moon_phase_bonus\<close> computes before it picks a phase: the
  absolute difference of the two longitudes, replaced by \<open>360 - elongation\<close> when it
  exceeds 180.\<close>

definition moon_sun_elongation :: "HoraryChart \<Rightarrow> real" where
  "moon_sun_elongation chart =
     (let elongation = \<bar>longitude (planets chart MOON) - longitude (planets chart SUN)\<bar>
      in if elongation > 180 then 360 - elongation else elongation)"

datatype phase = NewMoon | WaxingCrescent | FirstQuarter | WaxingGibbous | FullMoon
  | WaningGibbous | LastQuarter | WaningCrescent

text \<open>The branch of the \<open>if\<close>/\<open>elif\<close> chain taken at an elongation.\<close>

definition phase_branch :: "real \<Rightarrow> phase" where
  "phase_branch elongation =
     (if 0 \<le> elongation \<and> elongation < 30 then NewMoon
      else if 30 \<le> elongation \<and> elongation < 60 then WaxingCrescent
      else if 60 \<le> elongation \<and> elongation < 120 then FirstQuarter
      else if 120 \<le> elongation \<and> elongation < 150 then WaxingGibbous
      else if 150 \<le> elongation \<and> elongation < 210 then FullMoon
      else if 210 \<le> elongation \<and> elongation < 240 then WaningGibbous
      else if 240 \<le> elongation \<and> elongation < 300 then LastQuarter
      else WaningCrescent)"

fun phase_value :: "phase_bonus_conf \<Rightarrow> phase \<Rightarrow> int" where
  "phase_value pb NewMoon = new_moon pb"
| "phase_value pb WaxingCrescent = waxing_crescent pb"
| "phase_value pb FirstQuarter = first_quarter pb"
| "phase_value pb WaxingGibbous = waxing_gibbous pb"
| "phase_value pb FullMoon = full_moon pb"
| "phase_value pb WaningGibbous = waning_gibbous pb"
| "phase_value pb LastQuarter = last_quarter pb"
| "phase_value pb WaningCrescent = waning_crescent pb"

definition moon_phase_bonus :: "config \<Rightarrow> HoraryChart \<Rightarrow> int" where
  "moon_phase_bonus cfg chart =
     phase_value (phase_bonus (moon cfg)) (phase_branch (moon_sun_elongation chart))"

definition moon_speed_bonus :: "config \<Rightarrow> HoraryChart \<Rightarrow> int" where
  "moon_speed_bonus cfg chart =
     (let moon_speed = \<bar>speed (planets chart MOON)\<bar>; sb = speed_bonus (moon cfg)
      in if moon_speed < 11 then very_slow sb
         else if moon_speed < 12 then slow sb
         else if moon_speed < 14 then average sb
         else if moon_speed < 15 then fast sb
         else very_fast sb)"

definition moon_angularity_bonus :: "config \<Rightarrow> HoraryChart \<Rightarrow> int" where
  "moon_angularity_bonus cfg chart =
     (let moon_house = house (planets chart MOON); ab = angularity_bonus (moon cfg)
      in if moon_house \<in> set [1, 4, 7, 10] then angular ab
         else if moon_house \<in> set [2, 5, 8, 11] then succedent ab
         else cadent ab)"

section \<open>Collaborators outside the engine\<close>

text \<open>
  The helpers of the module \<open>_horary_math\<close> and the ephemeris are parameters of the
  model: \<open>days_to_sign_exit(longitude, speed)\<close> returns a float or \<open>None\<close>;
  \<open>check_aspect_separation_order\<close> returns a dictionary of which the engine reads the
  key \<open>is_separating\<close>; \<open>get_real_moon_speed\<close> asks the ephemeris for the Moon's
  speed at a Julian day.
\<close>

record horary_math =
  days_to_sign_exit :: "real \<Rightarrow> real \<Rightarrow> real option"
  check_aspect_separation_order :: "real \<Rightarrow> real \<Rightarrow> real \<Rightarrow> real \<Rightarrow> real \<Rightarrow> real \<Rightarrow> bool"
  calculate_elongation :: "real \<Rightarrow> real \<Rightarrow> real"
  sun_altitude_at_civil_twilight :: "real \<Rightarrow> real \<Rightarrow> real \<Rightarrow> real"
  get_real_moon_speed :: "real \<Rightarrow> real"

text \<open>Python's test \<open>d and x > d\<close> on an optional float \<open>d\<close>: \<open>None\<close> and \<open>0.0\<close> are
  both false, so the comparison is made only for a value other than zero.\<close>

definition truthy_and_gt :: "real option \<Rightarrow> real \<Rightarrow> bool" where
  "truthy_and_gt d x = (case d of None \<Rightarrow> False | Some v \<Rightarrow> v \<noteq> 0 \<and> x > v)"

text \<open>Python's \<open>int(x)\<close> on a float: truncation towards zero.\<close>

definition py_int :: "real \<Rightarrow> int" where
  "py_int x = (if 0 \<le> x then \<lfloor>x\<rfloor> else \<lceil>x\<rceil>)"

datatype exc = LocationError string | ValueError string | ZeroDivisionError
  | IndexError | AmbiguousTimeError | NonExistentTimeError | OverflowError
  | OtherException string

section \<open>Radicality and significators (judgment engine)\<close>

definition check_enhanced_radicality :: "config \<Rightarrow> HoraryChart \<Rightarrow> bool \<Rightarrow> bool \<times> msg" where
  "check_enhanced_radicality cfg chart ignore_saturn_7th =
     (let rc = radicality cfg;
          asc_degree = fmod (ascendant chart) 30;
          moon_pos = planets chart MOON;
          moon_degree_in_sign = fmod (longitude moon_pos) 30;
          vc = via_combusta rc
      in if asc_degree < asc_too_early rc
         then (False, [S ''Ascendant too early at '', F1 asc_degree,
                       S '' deg - question premature or not mature''])
         else if asc_degree > asc_too_late rc
         then (False, [S ''Ascendant too late at '', F1 asc_degree,
                       S '' deg - question too late or already decided''])
         else if saturn_7th_enabled rc \<and> \<not> ignore_saturn_7th
                 \<and> house (planets chart SATURN) = 7
         then (False, [S ''Saturn in 7th house - astrologer may err in judgment (Bonatti)''])
         else if via_combusta_enabled rc
                 \<and> ((sign moon_pos = LIBRA \<and> moon_degree_in_sign > libra_start vc)
                    \<or> (sign moon_pos = SCORPIO \<and> scorpio_full vc)
                    \<or> (sign moon_pos = CAPRICORN \<and> moon_degree_in_sign > capricorn_start vc))
         then (False, [S ''Moon in Via Combusta ('', SignName (sign moon_pos), S '' '',
                       F1 moon_degree_in_sign, S '' deg) - volatile or corrupted matter''])
         else (True, [S ''Chart is radical - Ascendant at '', F1 asc_degree, S '' deg'']))"

text \<open>The question analysis is a dictionary; the judgment reads
  \<open>question_analysis["significators"]["quesited_house"]\<close>.\<close>

record question_analysis =
  question_type :: string
  relevant_houses :: "int list"
  quesited_house :: int

datatype significators = SigInvalid msg | SigValid Planet Planet msg

definition identify_significators :: "HoraryChart \<Rightarrow> question_analysis \<Rightarrow> significators" where
  "identify_significators chart qa =
     (case (house_rulers chart 1, house_rulers chart (quesited_house qa)) of
        (Some querent_ruler, Some quesited_ruler) \<Rightarrow>
          if querent_ruler = quesited_ruler
          then SigInvalid [PlanetValue querent_ruler,
                 S '' rules both querent and quesited - seek natural significators'']
          else SigValid querent_ruler quesited_ruler
                 [S ''Querent: '', PlanetValue querent_ruler, S '' (ruler of '', IntNum 1,
                  S ''), Quesited: '', PlanetValue quesited_ruler, S '' (ruler of '',
                  IntNum (quesited_house qa), S '')'']
      | _ \<Rightarrow> SigInvalid [S ''Cannot determine house rulers''])"

section \<open>Solar factors (judgment engine)\<close>

text \<open>\<open>sep.join(parts)\<close> on formatted strings.\<close>

fun join :: "msg \<Rightarrow> msg list \<Rightarrow> msg" where
  "join sep [] = []"
| "join sep [x] = x"
| "join sep (x # y # ys) = x @ sep @ join sep (y # ys)"

definition planet_values :: "Planet list \<Rightarrow> msg" where
  "planet_values ps = join [S '', ''] (map (\<lambda>p. [PlanetValue p]) ps)"

record solar_factors =
  significant :: bool
  summary :: msg
  cazimi_count :: nat
  combustion_count :: nat
  under_beams_count :: nat
  combustion_ignored :: bool

text \<open>The planets whose solar analysis has a given condition, in the order of the
  dictionary \<open>chart.solar_analyses\<close>.\<close>

definition planets_with_condition :: "HoraryChart \<Rightarrow> SolarCondition \<Rightarrow> Planet list" where
  "planets_with_condition chart c =
     filter (\<lambda>p. case solar_analyses chart p of None \<Rightarrow> False | Some a \<Rightarrow> condition a = c)
       planet_list"

definition analyze_enhanced_solar_factors ::
  "HoraryChart \<Rightarrow> Planet \<Rightarrow> Planet \<Rightarrow> bool \<Rightarrow> solar_factors" where
  "analyze_enhanced_solar_factors chart querent quesited ignore_combustion =
     (let cazimi_planets = planets_with_condition chart CAZIMI;
          combusted_planets =
            (if ignore_combustion then [] else planets_with_condition chart COMBUSTION);
          under_beams_planets =
            (if ignore_combustion then [] else planets_with_condition chart UNDER_BEAMS);
          summary_parts =
            (if cazimi_planets \<noteq> [] then [S ''Cazimi: '' # planet_values cazimi_planets] else [])
            @ (if combusted_planets \<noteq> []
               then [S ''Combusted: '' # planet_values combusted_planets] else [])
            @ (if under_beams_planets \<noteq> []
               then [S ''Under Beams: '' # planet_values under_beams_planets] else [])
            @ (if ignore_combustion \<and> (combusted_planets \<noteq> [] \<or> under_beams_planets \<noteq> [])
               then [[S ''(Combustion effects ignored by override)'']] else [])
      in \<lparr> significant = (length summary_parts > 0),
           summary = (if summary_parts \<noteq> [] then join [S ''; ''] summary_parts
                      else [S ''No significant solar conditions'']),
           cazimi_count = length cazimi_planets,
           combustion_count = (if \<not> ignore_combustion then length combusted_planets else 0),
           under_beams_count = (if \<not> ignore_combustion then length under_beams_planets else 0),
           combustion_ignored = ignore_combustion \<rparr>)"

section \<open>Perfection (judgment engine)\<close>

record applying_aspect =
  aa_aspect :: Aspect
  aa_orb :: real
  aa_degrees_to_exact :: real

fun find_applying_aspect_in :: "AspectInfo list \<Rightarrow> Planet \<Rightarrow> Planet \<Rightarrow> applying_aspect option" where
  "find_applying_aspect_in [] p1 p2 = None"
| "find_applying_aspect_in (a # as) p1 p2 =
     (if ((planet1 a = p1 \<and> planet2 a = p2) \<or> (planet1 a = p2 \<and> planet2 a = p1))
         \<and> applying a
      then Some \<lparr> aa_aspect = aspect a, aa_orb = orb a,
                  aa_degrees_to_exact = degrees_to_exact a \<rparr>
      else find_applying_aspect_in as p1 p2)"

definition find_applying_aspect :: "HoraryChart \<Rightarrow> Planet \<Rightarrow> Planet \<Rightarrow> applying_aspect option" where
  "find_applying_aspect chart p1 p2 = find_applying_aspect_in (aspects chart) p1 p2"

definition enhanced_perfects_in_sign ::
  "horary_math \<Rightarrow> PlanetPosition \<Rightarrow> PlanetPosition \<Rightarrow> applying_aspect \<Rightarrow> bool" where
  "enhanced_perfects_in_sign hm pos1 pos2 aspect_info =
     (let days_to_exit_1 = days_to_sign_exit hm (longitude pos1) (speed pos1);
          days_to_exit_2 = days_to_sign_exit hm (longitude pos2) (speed pos2);
          relative_speed = \<bar>speed pos1 - speed pos2\<bar>
      in if relative_speed = 0 then False
         else let days_to_perfect = aa_degrees_to_exact aspect_info / relative_speed
              in if truthy_and_gt days_to_exit_1 days_to_perfect then False
                 else if truthy_and_gt days_to_exit_2 days_to_perfect then False
                 else True)"

definition check_enhanced_mutual_reception :: "HoraryChart \<Rightarrow> Planet \<Rightarrow> Planet \<Rightarrow> string" where
  "check_enhanced_mutual_reception chart p1 p2 =
     (let pos1 = planets chart p1; pos2 = planets chart p2
      in if ruler (sign pos1) = p2 \<and> ruler (sign pos2) = p1 then ''mutual_rulership''
         else if exaltations p1 = sign pos2 \<and> exaltations p2 = sign pos1
         then ''mutual_exaltation''
         else if (ruler (sign pos1) = p2 \<and> exaltations p2 = sign pos1)
                 \<or> (ruler (sign pos2) = p1 \<and> exaltations p1 = sign pos2)
         then ''mixed_reception''
         else ''none'')"

definition is_aspect_favorable :: "Aspect \<Rightarrow> string \<Rightarrow> bool" where
  "is_aspect_favorable asp reception =
     (let base_favorable = (asp \<in> set [CONJUNCTION, SEXTILE, TRINE])
      in if reception \<in> set [''mutual_rulership'', ''mutual_exaltation'', ''mixed_reception'']
         then True
         else base_favorable)"

record translation_found =
  translator :: Planet
  tr_favorable :: bool
  tr_sequence :: msg

text \<open>The body of the loop over \<open>chart.planets.items()\<close> in the translation check: the
  planets still to visit are the list.\<close>

fun translation_loop ::
  "horary_math \<Rightarrow> translation_conf \<Rightarrow> HoraryChart \<Rightarrow> Planet \<Rightarrow> Planet \<Rightarrow> Planet list
     \<Rightarrow> translation_found option" where
  "translation_loop hm tc chart querent quesited [] = None"
| "translation_loop hm tc chart querent quesited (p # ps) =
     (if p \<in> set [querent, quesited] then translation_loop hm tc chart querent quesited ps
      else
        (case (find_applying_aspect chart p querent, find_applying_aspect chart p quesited) of
           (Some aspect_to_querent, Some aspect_to_quesited) \<Rightarrow>
             if require_proper_sequence tc then
               (let pos = planets chart p;
                    querent_separation = check_aspect_separation_order hm
                      (longitude (planets chart querent)) (speed (planets chart querent))
                      (longitude pos) (speed pos)
                      (degrees (aa_aspect aspect_to_querent)) (julian_day chart);
                    quesited_separation = check_aspect_separation_order hm
                      (longitude (planets chart quesited)) (speed (planets chart quesited))
                      (longitude pos) (speed pos)
                      (degrees (aa_aspect aspect_to_quesited)) (julian_day chart)
                in if querent_separation
                      \<and> aa_degrees_to_exact aspect_to_quesited < aa_degrees_to_exact aspect_to_querent
                   then Some \<lparr> translator = p, tr_favorable = True,
                          tr_sequence = [S ''separating from '', PlanetValue querent,
                                         S '', applying to '', PlanetValue quesited] \<rparr>
                   else if quesited_separation
                      \<and> aa_degrees_to_exact aspect_to_querent < aa_degrees_to_exact aspect_to_quesited
                   then Some \<lparr> translator = p, tr_favorable = True,
                          tr_sequence = [S ''separating from '', PlanetValue quesited,
                                         S '', applying to '', PlanetValue querent] \<rparr>
                   else translation_loop hm tc chart querent quesited ps)
             else Some \<lparr> translator = p, tr_favorable = True,
                    tr_sequence = [S ''connecting '', PlanetValue querent, S '' and '',
                                   PlanetValue quesited] \<rparr>
         | _ \<Rightarrow> translation_loop hm tc chart querent quesited ps))"

definition check_enhanced_translation_of_light ::
  "horary_math \<Rightarrow> config \<Rightarrow> HoraryChart \<Rightarrow> Planet \<Rightarrow> Planet \<Rightarrow> translation_found option" where
  "check_enhanced_translation_of_light hm cfg chart querent quesited =
     (let translation_config = translation (moon cfg)
      in if \<not> require_speed_advantage translation_config
         then translation_loop hm translation_config chart querent quesited planet_list
         else None)"

record collection_found =
  collector :: Planet
  co_favorable :: bool
  strength :: int
  timing_valid :: bool

fun collection_loop ::
  "horary_math \<Rightarrow> collection_conf \<Rightarrow> HoraryChart \<Rightarrow> Planet \<Rightarrow> Planet \<Rightarrow> Planet list
     \<Rightarrow> collection_found option" where
  "collection_loop hm cc chart querent quesited [] = None"
| "collection_loop hm cc chart querent quesited (p # ps) =
     (if p \<in> set [querent, quesited] then collection_loop hm cc chart querent quesited ps
      else
        (case (find_applying_aspect chart querent p, find_applying_aspect chart quesited p) of
           (Some aspects_from_querent, Some aspects_from_quesited) \<Rightarrow>
             (let pos = planets chart p in
              if require_collector_dignity cc \<and> dignity_score pos < minimum_dignity_score cc
              then collection_loop hm cc chart querent quesited ps
              else
                (let querent_pos = planets chart querent;
                     quesited_pos = planets chart quesited;
                     querent_days_to_sign =
                       days_to_sign_exit hm (longitude querent_pos) (speed querent_pos);
                     quesited_days_to_sign =
                       days_to_sign_exit hm (longitude quesited_pos) (speed quesited_pos);
                     max_collection_days = max
                       (if \<bar>speed querent_pos - speed pos\<bar> > 0
                        then aa_degrees_to_exact aspects_from_querent
                               / \<bar>speed querent_pos - speed pos\<bar>
                        else 0)
                       (if \<bar>speed quesited_pos - speed pos\<bar> > 0
                        then aa_degrees_to_exact aspects_from_quesited
                               / \<bar>speed quesited_pos - speed pos\<bar>
                        else 0);
                     valid_collection =
                       (\<not> truthy_and_gt querent_days_to_sign max_collection_days
                        \<and> \<not> truthy_and_gt quesited_days_to_sign max_collection_days)
                 in if valid_collection
                    then Some \<lparr> collector = p, co_favorable = True,
                           strength = dignity_score pos, timing_valid = True \<rparr>
                    else collection_loop hm cc chart querent quesited ps))
         | _ \<Rightarrow> collection_loop hm cc chart querent quesited ps))"

definition check_enhanced_collection_of_light ::
  "horary_math \<Rightarrow> config \<Rightarrow> HoraryChart \<Rightarrow> Planet \<Rightarrow> Planet \<Rightarrow> collection_found option" where
  "check_enhanced_collection_of_light hm cfg chart querent quesited =
     collection_loop hm (collection (moon cfg)) chart querent quesited planet_list"

text \<open>The dictionary a perfection check returns. The keys \<open>reception\<close>, \<open>aspect\<close>,
  \<open>translator\<close> and \<open>collector\<close> are present in some branches only.\<close>

record perfection_found =
  ptype :: string
  favorable :: bool
  pconfidence :: int
  preason :: msg
  preception :: "string option"
  paspect :: "applying_aspect option"
  ptranslator :: "Planet option"
  pcollector :: "Planet option"

datatype perfection_result = NoPerfection msg | Perfects perfection_found

definition check_enhanced_perfection ::
  "horary_math \<Rightarrow> config \<Rightarrow> HoraryChart \<Rightarrow> Planet \<Rightarrow> Planet \<Rightarrow> real \<Rightarrow> perfection_result" where
  "check_enhanced_perfection hm cfg chart querent quesited exaltation_confidence_boost =
     (let pc = perfection (confidence cfg);
          querent_pos = planets chart querent;
          quesited_pos = planets chart quesited;
          direct_aspect = find_applying_aspect chart querent quesited;
          reception = check_enhanced_mutual_reception chart querent quesited
      in case (case direct_aspect of
                 None \<Rightarrow> None
               | Some da \<Rightarrow>
                   if enhanced_perfects_in_sign hm querent_pos quesited_pos da
                   then Some
                     (if reception = ''mutual_rulership''
                      then \<lparr> ptype = ''direct'', favorable = True,
                             pconfidence = direct_with_mutual_rulership pc,
                             preason = [AspectName (aa_aspect da),
                               S '' with mutual rulership - unconditional perfection''],
                             preception = Some reception, paspect = Some da,
                             ptranslator = None, pcollector = None \<rparr>
                      else if reception = ''mutual_exaltation''
                      then \<lparr> ptype = ''direct'', favorable = True,
                             pconfidence = py_int (min 100
                               (of_int (direct_with_mutual_exaltation pc)
                                  + exaltation_confidence_boost)),
                             preason = [AspectName (aa_aspect da),
                               S '' with mutual exaltation (+'', Num exaltation_confidence_boost,
                               S ''% confidence)''],
                             preception = Some reception, paspect = Some da,
                             ptranslator = None, pcollector = None \<rparr>
                      else \<lparr> ptype = ''direct'',
                             favorable = is_aspect_favorable (aa_aspect da) reception,
                             pconfidence = direct_basic pc,
                             preason = [AspectName (aa_aspect da), S '' between significators'']
                               @ (if reception \<noteq> ''none'' then [S '' with '', S reception] else []),
                             preception = Some reception, paspect = Some da,
                             ptranslator = None, pcollector = None \<rparr>)
                   else None) of
           Some direct \<Rightarrow> Perfects direct
         | None \<Rightarrow>
            (case check_enhanced_translation_of_light hm cfg chart querent quesited of
               Some tr \<Rightarrow> Perfects
                 \<lparr> ptype = ''translation'', favorable = tr_favorable tr,
                   pconfidence = translation_of_light pc,
                   preason = [S ''Translation of light by '', PlanetValue (translator tr), S '' - '']
                     @ tr_sequence tr,
                   preception = None, paspect = None,
                   ptranslator = Some (translator tr), pcollector = None \<rparr>
             | None \<Rightarrow>
                (case check_enhanced_collection_of_light hm cfg chart querent quesited of
                   Some co \<Rightarrow> Perfects
                     \<lparr> ptype = ''collection'', favorable = co_favorable co,
                       pconfidence = collection_of_light pc,
                       preason = [S ''Collection of light by '', PlanetValue (collector co)],
                       preception = None, paspect = None,
                       ptranslator = None, pcollector = Some (collector co) \<rparr>
                 | None \<Rightarrow>
                    if reception = ''mutual_rulership''
                    then Perfects
                      \<lparr> ptype = ''reception'', favorable = True,
                        pconfidence = reception_only pc,
                        preason = [S ''Mutual reception by rulership - unconditional perfection''],
                        preception = Some reception, paspect = None,
                        ptranslator = None, pcollector = None \<rparr>
                    else if reception = ''mutual_exaltation''
                    then Perfects
                      \<lparr> ptype = ''reception'', favorable = True,
                        pconfidence = py_int (min 100
                          (of_int (reception_only pc) + exaltation_confidence_boost)),
                        preason = [S ''Mutual reception by exaltation (+'',
                          Num exaltation_confidence_boost, S ''% confidence)''],
                        preception = Some reception, paspect = None,
                        ptranslator = None, pcollector = None \<rparr>
                    else NoPerfection [S ''No perfection found between significators''])))"

section \<open>Denial conditions (judgment engine)\<close>

fun prohibition_loop :: "HoraryChart \<Rightarrow> Planet \<Rightarrow> Planet \<Rightarrow> AspectInfo list \<Rightarrow> Planet option" where
  "prohibition_loop chart querent quesited [] = None"
| "prohibition_loop chart querent quesited (a # as) =
     (if (planet1 a = SATURN \<or> planet2 a = SATURN) \<and> applying a
      then
        (let other_planet = (if planet1 a = SATURN then planet2 a else planet1 a)
         in if other_planet \<in> set [querent, quesited]
            then
              (case find_applying_aspect chart querent quesited of
                 Some sig_aspect \<Rightarrow>
                   if degrees_to_exact a < aa_degrees_to_exact sig_aspect
                   then Some other_planet
                   else prohibition_loop chart querent quesited as
               | None \<Rightarrow> prohibition_loop chart querent quesited as)
            else prohibition_loop chart querent quesited as)
      else prohibition_loop chart querent quesited as)"

text \<open>The result is \<open>None\<close> for \<open>{"denied": False}\<close> and the confidence and reason of a
  denial otherwise.\<close>

definition check_enhanced_denial_conditions ::
  "config \<Rightarrow> HoraryChart \<Rightarrow> Planet \<Rightarrow> Planet \<Rightarrow> (int \<times> msg) option" where
  "check_enhanced_denial_conditions cfg chart querent quesited =
     (case prohibition_loop chart querent quesited (aspects chart) of
        Some other_planet \<Rightarrow>
          Some (prohibition (denial (confidence cfg)),
                [S ''Prohibition by Saturn - aspects '', PlanetValue other_planet,
                 S '' before perfection''])
      | None \<Rightarrow>
          (let querent_pos = planets chart querent; quesited_pos = planets chart quesited
           in if \<not> automatic_denial cfg then None
              else if retrograde querent_pos \<or> retrograde quesited_pos
              then Some (frustration_retrograde (denial (confidence cfg)),
                     [S ''Frustration - '',
                      S (if retrograde querent_pos then ''querent'' else ''quesited''),
                      S '' significator retrograde''])
              else None))"

section \<open>Void of course (judgment engine)\<close>

record void_result =
  void :: bool
  exception :: bool
  vreason :: msg
  degrees_left_in_sign :: "real option"

definition calculate_aspect_positions :: "real \<Rightarrow> Aspect \<Rightarrow> Sign \<Rightarrow> real list" where
  "calculate_aspect_positions planet_longitude asp moon_sign =
     (let aspect_positions = [fmod (planet_longitude + degrees asp) 360,
                              fmod (planet_longitude - degrees asp) 360];
          sign_start = start_degree moon_sign;
          sign_end = fmod (sign_start + 30) 360
      in filter
           (\<lambda>pos_normalized.
              if sign_start < sign_end
              then sign_start \<le> pos_normalized \<and> pos_normalized < sign_end
              else pos_normalized \<ge> sign_start \<or> pos_normalized < sign_end)
           (map (\<lambda>pos. fmod pos 360) aspect_positions))"

record future_aspect =
  fa_planet :: Planet
  fa_aspect :: Aspect
  target_degree :: real
  degrees_to_reach :: real

text \<open>The list \<open>future_aspects\<close> the by-sign method collects in its three nested
  loops, in the order of the appends.\<close>

definition future_aspects_in_sign :: "HoraryChart \<Rightarrow> future_aspect list" where
  "future_aspects_in_sign chart =
     (let moon_pos = planets chart MOON;
          moon_degree_in_sign = fmod (longitude moon_pos) 30;
          degrees_left = 30 - moon_degree_in_sign
      in concat (map (\<lambda>p.
           if p = MOON then []
           else concat (map (\<lambda>aspect_type.
             concat (map (\<lambda>target_position.
               (let target_degree_in_sign = fmod target_position 30
                in if target_degree_in_sign > moon_degree_in_sign
                      \<and> target_degree_in_sign - moon_degree_in_sign < degrees_left
                   then [\<lparr> fa_planet = p, fa_aspect = aspect_type,
                           target_degree = target_degree_in_sign,
                           degrees_to_reach = target_degree_in_sign - moon_degree_in_sign \<rparr>]
                   else []))
               (calculate_aspect_positions (longitude (planets chart p)) aspect_type
                  (sign moon_pos))))
             aspect_list))
           planet_list))"

text \<open>Python's \<open>min(xs, key=f)\<close> on a list with a first element: the first element
  whose key is minimal.\<close>

fun min_by :: "('a \<Rightarrow> real) \<Rightarrow> 'a \<Rightarrow> 'a list \<Rightarrow> 'a" where
  "min_by key best [] = best"
| "min_by key best (x # xs) = min_by key (if key x < key best then x else best) xs"

definition void_by_sign_method :: "config \<Rightarrow> HoraryChart \<Rightarrow> void_result" where
  "void_by_sign_method cfg chart =
     (let moon_pos = planets chart MOON;
          moon_degree_in_sign = fmod (longitude moon_pos) 30;
          degrees_left = 30 - moon_degree_in_sign
      in if \<bar>speed moon_pos\<bar> < stationary_speed_threshold (timing cfg)
         then \<lparr> void = False, exception = False,
                vreason = [S ''Moon stationary - cannot be void of course''],
                degrees_left_in_sign = Some degrees_left \<rparr>
         else
           (let future_aspects = future_aspects_in_sign chart;
                ve = void_exceptions (moon cfg);
                exceptions =
                  (if sign moon_pos = CANCER \<and> exc_cancer ve then True
                   else if sign moon_pos = SAGITTARIUS \<and> exc_sagittarius ve then True
                   else if sign moon_pos = TAURUS \<and> exc_taurus ve then True
                   else False);
                has_future_aspects = (length future_aspects > 0);
                is_void = (\<not> has_future_aspects);
                reason =
                  (case future_aspects of
                     [] \<Rightarrow> [S ''Moon makes no more aspects before leaving '',
                            SignName (sign moon_pos)]
                   | fa # fas \<Rightarrow>
                       (let next_aspect = min_by degrees_to_reach fa fas
                        in [S ''Moon will '', AspectNameLower (fa_aspect next_aspect), S '' '',
                            PlanetValue (fa_planet next_aspect), S '' at '',
                            F1 (target_degree next_aspect), S '' deg '',
                            SignName (sign moon_pos)]));
                reason' =
                  (if exceptions
                   then (if sign moon_pos = CANCER then reason @ [S '' (but in own sign - Cancer)'']
                         else if sign moon_pos = SAGITTARIUS
                         then reason @ [S '' (but in joy - Sagittarius)'']
                         else if sign moon_pos = TAURUS
                         then reason @ [S '' (but in exaltation - Taurus)'']
                         else reason)
                   else reason)
            in \<lparr> void = is_void, exception = exceptions, vreason = reason',
                 degrees_left_in_sign = Some degrees_left \<rparr>))"

definition void_by_orb_method :: "config \<Rightarrow> HoraryChart \<Rightarrow> void_result" where
  "void_by_orb_method cfg chart =
     (let moon_pos = planets chart MOON;
          void_orb = void_orb_deg (orbs cfg);
          within_orb = (\<lambda>(p, aspect_type).
            (let d = \<bar>longitude moon_pos - longitude (planets chart p)\<bar>;
                 separation = (if d > 180 then 360 - d else d)
             in \<bar>separation - degrees aspect_type\<bar> \<le> void_orb))
      in case find within_orb
                (concat (map (\<lambda>p. map (Pair p) aspect_list)
                   (filter (\<lambda>p. p \<noteq> MOON) planet_list))) of
           Some (p, aspect_type) \<Rightarrow>
             \<lparr> void = False, exception = False,
               vreason = [S ''Moon within '', Num void_orb, S '' deg orb of '',
                          AspectName aspect_type, S '' to '', PlanetValue p],
               degrees_left_in_sign = None \<rparr>
         | None \<Rightarrow>
             \<lparr> void = True, exception = False,
               vreason = [S ''Moon not within '', Num void_orb, S '' deg of any aspect''],
               degrees_left_in_sign = None \<rparr>)"

definition lilly_exceptions :: "Sign list" where
  "lilly_exceptions = [CANCER, TAURUS, SAGITTARIUS, PISCES]"

definition void_lilly_method :: "config \<Rightarrow> HoraryChart \<Rightarrow> void_result" where
  "void_lilly_method cfg chart =
     (let moon_pos = planets chart MOON;
          exc = (sign moon_pos \<in> set lilly_exceptions);
          void_result = void_by_sign_method cfg chart;
          void_result = void_result \<lparr> exception := exc \<rparr>
      in if exc
         then void_result \<lparr> vreason := vreason void_result
                @ [S '' (Lilly exception: '', SignName (sign moon_pos), S '')''] \<rparr>
         else void_result)"

definition is_moon_void_of_course_enhanced :: "config \<Rightarrow> HoraryChart \<Rightarrow> void_result" where
  "is_moon_void_of_course_enhanced cfg chart =
     (let vr = void_rule (moon cfg)
      in if vr = ''by_sign'' then void_by_sign_method cfg chart
         else if vr = ''by_orb'' then void_by_orb_method cfg chart
         else if vr = ''lilly'' then void_lilly_method cfg chart
         else void_by_sign_method cfg chart)"

section \<open>Moon testimony (judgment engine)\<close>

record moon_testimony =
  mt_favorable :: bool
  mt_unfavorable :: bool
  mt_reason :: msg
  void_of_course :: bool
  mt_timing :: "msg option"

definition check_enhanced_moon_testimony ::
  "config \<Rightarrow> HoraryChart \<Rightarrow> Planet \<Rightarrow> Planet \<Rightarrow> bool \<Rightarrow> moon_testimony" where
  "check_enhanced_moon_testimony cfg chart querent quesited ignore_void_moon =
     (let moon_pos = planets chart MOON;
          void_check = is_moon_void_of_course_enhanced cfg chart
      in if \<not> ignore_void_moon \<and> void void_check \<and> \<not> exception void_check
         then \<lparr> mt_favorable = False, mt_unfavorable = True,
                mt_reason = [S ''Moon void of course - ''] @ vreason void_check,
                void_of_course = True,
                mt_timing = Some [S ''Nothing comes of the matter''] \<rparr>
         else if ignore_void_moon
         then \<lparr> mt_favorable = False, mt_unfavorable = False,
                mt_reason = [S ''Moon void of course - ignored by override''],
                void_of_course = True,
                mt_timing = Some [S ''Uncertain (void Moon overridden)''] \<rparr>
         else
           (let phase_b = moon_phase_bonus cfg chart;
                speed_b = moon_speed_bonus cfg chart;
                angularity_b = moon_angularity_bonus cfg chart;
                total_moon_bonus = phase_b + speed_b + angularity_b;
                adjusted_dignity = dignity_score moon_pos + total_moon_bonus;
                general =
                  (if adjusted_dignity > 0
                   then \<lparr> mt_favorable = True, mt_unfavorable = False,
                          mt_reason = [S ''Moon well-dignified in '', SignName (sign moon_pos),
                            S '' (adjusted dignity: '', SignedInt adjusted_dignity, S '')''],
                          void_of_course = False, mt_timing = None \<rparr>
                   else if adjusted_dignity < - 3
                   then \<lparr> mt_favorable = False, mt_unfavorable = True,
                          mt_reason = [S ''Moon poorly dignified in '', SignName (sign moon_pos),
                            S '' (adjusted dignity: '', SignedInt adjusted_dignity, S '')''],
                          void_of_course = False, mt_timing = None \<rparr>
                   else \<lparr> mt_favorable = False, mt_unfavorable = False,
                          mt_reason = [S ''Moon testimony neutral (adjusted dignity: '',
                            SignedInt adjusted_dignity, S '')''],
                          void_of_course = False, mt_timing = None \<rparr>)
            in case moon_next_aspect chart of
                 None \<Rightarrow> general
               | Some next_aspect \<Rightarrow>
                   if la_planet next_aspect \<in> set [querent, quesited]
                   then
                     (let fav = (la_aspect next_aspect \<in> set [CONJUNCTION, SEXTILE, TRINE])
                      in \<lparr> mt_favorable = fav, mt_unfavorable = (\<not> fav),
                           mt_reason = [S ''Moon next '', AspectName (la_aspect next_aspect),
                             S ''s '', PlanetValue (la_planet next_aspect),
                             S '' (total dignity: '', SignedInt adjusted_dignity, S '')''],
                           void_of_course = False,
                           mt_timing = Some (perfection_eta_description next_aspect) \<rparr>)
                   else general))"

section \<open>Timing (judgment engine)\<close>

definition format_timing_description_enhanced :: "real \<Rightarrow> msg" where
  "format_timing_description_enhanced days =
     (if days < 1 / 2 then [S ''Within hours'']
      else if days < 1 then [S ''Within a day'']
      else if days < 7 then [S ''Within '', IntNum (py_int days), S '' days'']
      else if days < 30 then [S ''Within '', IntNum (py_int (days / 7)), S '' weeks'']
      else if days < 365 then [S ''Within '', IntNum (py_int (days / 30)), S '' months'']
      else [S ''More than a year''])"

text \<open>The division by the Moon's speed raises \<open>ZeroDivisionError\<close> when the ephemeris
  gives a speed of zero.\<close>

definition calculate_enhanced_timing ::
  "horary_math \<Rightarrow> HoraryChart \<Rightarrow> perfection_found \<Rightarrow> exc + msg" where
  "calculate_enhanced_timing hm chart pf =
     (case paspect pf of
        Some a \<Rightarrow>
          (let moon_speed = get_real_moon_speed hm (julian_day chart)
           in if moon_speed = 0 then Inl ZeroDivisionError
              else Inr (format_timing_description_enhanced (aa_degrees_to_exact a / moon_speed)))
      | None \<Rightarrow> Inr [S ''Timing uncertain''])"

section \<open>The judgment (judgment engine)\<close>

datatype traditional_factors =
    PerfectionFactors string string int int
  | MoonFactors bool msg int int int

record judgment_result =
  result :: string
  jconfidence :: int
  reasoning :: "msg list"
  jtiming :: "msg option"
  jtraditional_factors :: "traditional_factors option"
  jsolar_factors :: "solar_factors option"

text \<open>The running confidence after the solar adjustment of step 2: the base confidence,
  plus the cazimi bonus when a planet is cazimi, else minus the combustion penalty when a
  planet is combust and combustion is not ignored.\<close>

definition solar_adjusted_confidence :: "config \<Rightarrow> solar_factors \<Rightarrow> bool \<Rightarrow> int" where
  "solar_adjusted_confidence cfg sf ignore_combustion =
     (let c = base_confidence (confidence cfg)
      in if significant sf
         then (if cazimi_count sf > 0 then c + cazimi_bonus (solar (confidence cfg))
               else if combustion_count sf > 0 \<and> \<not> ignore_combustion
               then c - combustion_penalty (solar (confidence cfg))
               else c)
         else c)"

text \<open>The lines the same step appends to the reasoning.\<close>

definition solar_reasoning :: "solar_factors \<Rightarrow> bool \<Rightarrow> msg list" where
  "solar_reasoning sf ignore_combustion =
     (if significant sf
      then [S ''Solar conditions: '' # summary sf]
           @ (if cazimi_count sf > 0
              then [[S ''Cazimi planets significantly strengthen the judgment'']]
              else if combustion_count sf > 0 \<and> \<not> ignore_combustion
              then [[S ''Combusted planets significantly weaken the judgment'']]
              else [])
      else [])"

definition apply_enhanced_judgment ::
  "horary_math \<Rightarrow> config \<Rightarrow> HoraryChart \<Rightarrow> question_analysis
     \<Rightarrow> bool \<Rightarrow> bool \<Rightarrow> bool \<Rightarrow> bool \<Rightarrow> real \<Rightarrow> exc + judgment_result" where
  "apply_enhanced_judgment hm cfg chart qa ignore_radicality ignore_void_moon
       ignore_combustion ignore_saturn_7th exaltation_confidence_boost =
     (let radicality_check = check_enhanced_radicality cfg chart ignore_saturn_7th
      in if \<not> ignore_radicality \<and> \<not> fst radicality_check
         then Inr \<lparr> result = ''NOT RADICAL'', jconfidence = 0,
                reasoning = [snd radicality_check], jtiming = None,
                jtraditional_factors = None, jsolar_factors = None \<rparr>
         else
          (let reasoning1 =
                 (if \<not> ignore_radicality then [S ''Radicality: '' # snd radicality_check]
                  else [[S ''Radicality: Bypassed by override'']])
           in case identify_significators chart qa of
                SigInvalid why \<Rightarrow>
                  Inr \<lparr> result = ''CANNOT JUDGE'', jconfidence = 0,
                        reasoning = reasoning1 @ [why], jtiming = None,
                        jtraditional_factors = None, jsolar_factors = None \<rparr>
              | SigValid querent_planet quesited_planet description \<Rightarrow>
                 (let reasoning2 = reasoning1 @ [S ''Significators: '' # description];
                      sf = analyze_enhanced_solar_factors chart querent_planet quesited_planet
                             ignore_combustion;
                      conf = solar_adjusted_confidence cfg sf ignore_combustion;
                      reasoning3 = reasoning2 @ solar_reasoning sf ignore_combustion
                  in case check_enhanced_perfection hm cfg chart querent_planet quesited_planet
                            exaltation_confidence_boost of
                       Perfects pf \<Rightarrow>
                         (case calculate_enhanced_timing hm chart pf of
                            Inl e \<Rightarrow> Inl e
                          | Inr timing_text \<Rightarrow>
                              Inr \<lparr> result = (if favorable pf then ''YES'' else ''NO''),
                                    jconfidence = min conf (pconfidence pf),
                                    reasoning = reasoning3 @ [S ''Perfection: '' # preason pf],
                                    jtiming = Some timing_text,
                                    jtraditional_factors = Some (PerfectionFactors (ptype pf)
                                      (case preception pf of Some r \<Rightarrow> r | None \<Rightarrow> ''none'')
                                      (dignity_score (planets chart querent_planet))
                                      (dignity_score (planets chart quesited_planet))),
                                    jsolar_factors = Some sf \<rparr>)
                     | NoPerfection why \<Rightarrow>
                         (case check_enhanced_denial_conditions cfg chart querent_planet
                                 quesited_planet of
                            Some (denial_confidence, denial_reason) \<Rightarrow>
                              Inr \<lparr> result = ''NO'',
                                    jconfidence = min conf denial_confidence,
                                    reasoning = reasoning3 @ [S ''Denial: '' # denial_reason],
                                    jtiming = None, jtraditional_factors = None,
                                    jsolar_factors = Some sf \<rparr>
                          | None \<Rightarrow>
                             (let mt = check_enhanced_moon_testimony cfg chart querent_planet
                                         quesited_planet ignore_void_moon;
                                  reasoning4 = reasoning3 @ [S ''Moon: '' # mt_reason mt];
                                  caps = lunar_confidence_caps (confidence cfg);
                                  verdict =
                                    (if mt_favorable mt then (''YES'', min conf (cap_favorable caps))
                                     else if mt_unfavorable mt
                                     then (''NO'', min conf (cap_unfavorable caps))
                                     else (''UNCLEAR'', min conf (cap_neutral caps)))
                              in Inr \<lparr> result = fst verdict, jconfidence = snd verdict,
                                       reasoning = reasoning4,
                                       jtiming = Some (case mt_timing mt of Some t \<Rightarrow> t
                                                       | None \<Rightarrow> [S ''Uncertain'']),
                                       jtraditional_factors = Some (MoonFactors
                                         (void_of_course mt)
                                         [S ''Querent: '',
                                          SignedInt (dignity_score (planets chart querent_planet)),
                                          S '', Quesited: '',
                                          SignedInt (dignity_score (planets chart quesited_planet))]
                                         (moon_phase_bonus cfg chart)
                                         (moon_speed_bonus cfg chart)
                                         (moon_angularity_bonus cfg chart)),
                                       jsolar_factors = Some sf \<rparr>)))))"

section \<open>Solar condition analysis (calculator)\<close>

text \<open>\<open>self.combustion_resistant\<close>: the planets with a traditional exception to
  combustion.\<close>

definition combustion_resistant :: "Planet list" where
  "combustion_resistant = [MERCURY, VENUS]"

definition check_enhanced_combustion_exception ::
  "horary_math \<Rightarrow> Planet \<Rightarrow> PlanetPosition \<Rightarrow> PlanetPosition \<Rightarrow> real \<Rightarrow> real \<Rightarrow> real \<Rightarrow> bool" where
  "check_enhanced_combustion_exception hm p planet_pos sun_pos lat lon jd_ut =
     (let elongation = calculate_elongation hm (longitude planet_pos) (longitude sun_pos)
      in if elongation < 10 then False
         else
           (let sun_altitude = sun_altitude_at_civil_twilight hm lat lon jd_ut
            in if p = MERCURY
               then (if elongation \<ge> 10 \<and> sign planet_pos \<in> set [GEMINI, VIRGO] then True
                     else if elongation \<ge> 18 then True
                     else False)
               else if p = VENUS
               then (if elongation \<ge> 10
                     then (if sun_altitude \<le> - 8 then True
                           else if elongation \<ge> 40 then True
                           else False)
                     else False)
               else False))"

text \<open>The flag \<open>traditional_exception\<close> the analyzer computes before it classifies:
  false for a planet outside \<open>combustion_resistant\<close>.\<close>

definition traditional_exception_flag ::
  "horary_math \<Rightarrow> Planet \<Rightarrow> PlanetPosition \<Rightarrow> PlanetPosition \<Rightarrow> real \<Rightarrow> real \<Rightarrow> real \<Rightarrow> bool" where
  "traditional_exception_flag hm p planet_pos sun_pos lat lon jd_ut =
     (if p \<in> set combustion_resistant
      then check_enhanced_combustion_exception hm p planet_pos sun_pos lat lon jd_ut
      else False)"

text \<open>Modelled from the spec: the dataclass \<open>SolarAnalysis\<close> (models.py) gives the
  fields a constructor call omits (\<open>exact_cazimi\<close>, \<open>traditional_exception\<close>) the default
  false.\<close>

definition analyze_enhanced_solar_condition ::
  "horary_math \<Rightarrow> config \<Rightarrow> Planet \<Rightarrow> PlanetPosition \<Rightarrow> PlanetPosition \<Rightarrow> real \<Rightarrow> real \<Rightarrow> real
     \<Rightarrow> SolarAnalysis" where
  "analyze_enhanced_solar_condition hm cfg p planet_pos sun_pos lat lon jd_ut =
     (if p = SUN
      then \<lparr> sa_planet = p, distance_from_sun = 0, condition = FREE,
             exact_cazimi = False, traditional_exception = False \<rparr>
      else
        (let elongation = calculate_elongation hm (longitude planet_pos) (longitude sun_pos);
             cazimi_orb = cazimi_orb_arcmin (orbs cfg) / 60;
             combustion_orb_deg = combustion_orb (orbs cfg);
             under_beams_orb_deg = under_beams_orb (orbs cfg);
             exc_flag = traditional_exception_flag hm p planet_pos sun_pos lat lon jd_ut
         in if elongation \<le> cazimi_orb
            then \<lparr> sa_planet = p, distance_from_sun = elongation, condition = CAZIMI,
                   exact_cazimi = (elongation \<le> 3 / 60), traditional_exception = False \<rparr>
            else if elongation \<le> combustion_orb_deg
            then (if exc_flag
                  then \<lparr> sa_planet = p, distance_from_sun = elongation, condition = FREE,
                         exact_cazimi = False, traditional_exception = True \<rparr>
                  else \<lparr> sa_planet = p, distance_from_sun = elongation,
                         condition = COMBUSTION,
                         exact_cazimi = False, traditional_exception = False \<rparr>)
            else if elongation \<le> under_beams_orb_deg
            then (if exc_flag
                  then \<lparr> sa_planet = p, distance_from_sun = elongation, condition = FREE,
                         exact_cazimi = False, traditional_exception = True \<rparr>
                  else \<lparr> sa_planet = p, distance_from_sun = elongation,
                         condition = UNDER_BEAMS,
                         exact_cazimi = False, traditional_exception = False \<rparr>)
            else \<lparr> sa_planet = p, distance_from_sun = elongation, condition = FREE,
                   exact_cazimi = False, traditional_exception = False \<rparr>))"

section \<open>Applying aspects (calculator)\<close>

text \<open>The two normalisation loops of \<open>_is_applying_enhanced\<close>:
  \<open>while separation > 180: separation -= 360\<close> and
  \<open>while separation < -180: separation += 360\<close>.\<close>

function norm_down :: "real \<Rightarrow> real" where
  "norm_down s = (if s > 180 then norm_down (s - 360) else s)"
  by pat_completeness auto
termination
proof (relation "measure (\<lambda>s. nat \<lceil>s / 360\<rceil>)")
  show "wf (measure (\<lambda>s::real. nat \<lceil>s / 360\<rceil>))" by simp
next
  fix s :: real
  assume h: "180 < s"
  have e: "\<lceil>(s - 360) / 360\<rceil> = \<lceil>s / 360\<rceil> - 1"
    by (simp add: diff_divide_distrib)
  have "0 < s / 360" using h by simp
  then have "0 < \<lceil>s / 360\<rceil>" by (simp add: ceiling_less_iff)
  with e show "(s - 360, s) \<in> measure (\<lambda>s. nat \<lceil>s / 360\<rceil>)" by simp
qed

function norm_up :: "real \<Rightarrow> real" where
  "norm_up s = (if s < - 180 then norm_up (s + 360) else s)"
  by pat_completeness auto
termination
proof (relation "measure (\<lambda>s. nat \<lceil>- s / 360\<rceil>)")
  show "wf (measure (\<lambda>s::real. nat \<lceil>- s / 360\<rceil>))" by simp
next
  fix s :: real
  assume h: "s < - 180"
  have "- (s + 360) / 360 = - s / 360 - 1" by (simp add: field_simps)
  then have e: "\<lceil>- (s + 360) / 360\<rceil> = \<lceil>- s / 360\<rceil> - 1" by (simp only: ceiling_diff_one)
  have "0 < - s / 360" using h by simp
  then have "0 < \<lceil>- s / 360\<rceil>" by linarith
  with e have "nat \<lceil>- (s + 360) / 360\<rceil> < nat \<lceil>- s / 360\<rceil>" by linarith
  then show "(s + 360, s) \<in> measure (\<lambda>s. nat \<lceil>- s / 360\<rceil>)" by (simp only: in_measure)
qed

declare norm_down.simps [simp del]
declare norm_up.simps [simp del]

definition normalize_separation :: "real \<Rightarrow> real" where
  "normalize_separation s = norm_up (norm_down s)"

text \<open>The faster and the slower body: \<open>pos1\<close> is the faster one only when its absolute
  speed is strictly greater.\<close>

definition faster_of :: "PlanetPosition \<Rightarrow> PlanetPosition \<Rightarrow> PlanetPosition" where
  "faster_of pos1 pos2 = (if \<bar>speed pos1\<bar> > \<bar>speed pos2\<bar> then pos1 else pos2)"

definition slower_of :: "PlanetPosition \<Rightarrow> PlanetPosition \<Rightarrow> PlanetPosition" where
  "slower_of pos1 pos2 = (if \<bar>speed pos1\<bar> > \<bar>speed pos2\<bar> then pos2 else pos1)"

definition current_separation :: "PlanetPosition \<Rightarrow> PlanetPosition \<Rightarrow> real" where
  "current_separation pos1 pos2 =
     normalize_separation (longitude (faster_of pos1 pos2) - longitude (slower_of pos1 pos2))"

definition aspect_targets :: "Aspect \<Rightarrow> real list" where
  "aspect_targets asp =
     (let target = degrees asp
      in [target, - target]
         @ (if target \<noteq> 0 \<and> target \<noteq> 180 then [target - 360, - target + 360] else []))"

definition closest_target :: "PlanetPosition \<Rightarrow> PlanetPosition \<Rightarrow> Aspect \<Rightarrow> real" where
  "closest_target pos1 pos2 asp =
     (let separation = current_separation pos1 pos2
      in min_by (\<lambda>t. \<bar>separation - t\<bar>) (hd (aspect_targets asp)) (tl (aspect_targets asp)))"

definition current_orb :: "PlanetPosition \<Rightarrow> PlanetPosition \<Rightarrow> Aspect \<Rightarrow> real" where
  "current_orb pos1 pos2 asp = \<bar>current_separation pos1 pos2 - closest_target pos1 pos2 asp\<bar>"

text \<open>The estimated days to exactness: the orb divided by the relative speed, and
  \<open>float('inf')\<close> (\<open>None\<close> here) when the relative speed is zero.\<close>

definition days_to_perfect :: "PlanetPosition \<Rightarrow> PlanetPosition \<Rightarrow> Aspect \<Rightarrow> real option" where
  "days_to_perfect pos1 pos2 asp =
     (let rel = \<bar>speed (faster_of pos1 pos2) - speed (slower_of pos1 pos2)\<bar>
      in if rel > 0 then Some (current_orb pos1 pos2 asp / rel) else None)"




section \<open>House position (calculator)\<close>

text \<open>The test of the loop body for the arc that starts at cusp \<open>i\<close>, on a longitude
  already reduced modulo 360.\<close>

definition in_arc :: "real list \<Rightarrow> nat \<Rightarrow> real \<Rightarrow> bool" where
  "in_arc hs i x =
     (let current_cusp = fmod (hs ! i) 360;
          next_cusp = fmod (hs ! ((i + 1) mod 12)) 360
      in if current_cusp > next_cusp then x \<ge> current_cusp \<or> x < next_cusp
         else current_cusp \<le> x \<and> x < next_cusp)"

text \<open>The loop \<open>for i in range(12)\<close> from index \<open>i\<close> with \<open>n\<close> iterations left. Reading
  the list beyond its end raises \<open>IndexError\<close>; after the last iteration the function
  returns 1.\<close>

fun house_loop :: "real \<Rightarrow> real list \<Rightarrow> nat \<Rightarrow> nat \<Rightarrow> exc + int" where
  "house_loop x hs i 0 = Inr 1"
| "house_loop x hs i (Suc n) =
     (if i \<ge> length hs \<or> (i + 1) mod 12 \<ge> length hs then Inl IndexError
      else if in_arc hs i x then Inr (int i + 1)
      else house_loop x hs (Suc i) n)"

definition calculate_house_position :: "real \<Rightarrow> real list \<Rightarrow> exc + int" where
  "calculate_house_position lon hs = house_loop (fmod lon 360) hs 0 12"

section \<open>Time zones (judgment engine)\<close>

text \<open>
  A naive datetime is its calendar fields. The libraries \<open>zoneinfo\<close> and \<open>pytz\<close>, the
  time-zone finder and \<open>strptime\<close> are collaborators: whether \<open>ZoneInfo\<close> could be
  imported, whether constructing a zone by name succeeds, what \<open>localize\<close> returns or
  raises, the offset a zone gives a wall-clock time, and the conversion to UTC are
  parameters. The call \<open>tz.localize(dt)\<close> and the call \<open>tz.localize(dt, is_dst=False)\<close>
  are separate parameters.
\<close>

record naive_dt =
  year :: int
  month :: int
  day :: int
  hour :: int
  minute :: int

datatype tzobj = ZoneInfoTz string | PytzTz string | PytzUTC

record aware_dt =
  wall :: naive_dt
  tzinfo :: tzobj
  utcoffset_minutes :: int

record tz_env =
  zoneinfo_available :: bool
  zoneinfo_ctor :: "string \<Rightarrow> bool"
  pytz_timezone :: "string \<Rightarrow> bool"
  tf_timezone_at :: "real \<Rightarrow> real \<Rightarrow> exc + string option"
  strptime :: "string \<Rightarrow> exc + naive_dt"
  localize :: "tzobj \<Rightarrow> naive_dt \<Rightarrow> exc + aware_dt"
  localize_is_dst :: "tzobj \<Rightarrow> naive_dt \<Rightarrow> bool \<Rightarrow> exc + aware_dt"
  zone_utcoffset :: "tzobj \<Rightarrow> naive_dt \<Rightarrow> int"
  astimezone_utc :: "aware_dt \<Rightarrow> naive_dt"

definition is_leap :: "int \<Rightarrow> bool" where
  "is_leap y = (y mod 4 = 0 \<and> (y mod 100 \<noteq> 0 \<or> y mod 400 = 0))"

definition days_in_month :: "int \<Rightarrow> int \<Rightarrow> int" where
  "days_in_month y m =
     (if m = 2 then (if is_leap y then 29 else 28)
      else if m \<in> set [4, 6, 9, 11] then 30 else 31)"

text \<open>\<open>dt + timedelta(hours=1)\<close>; past the year 9999 it raises \<open>OverflowError\<close>.\<close>

definition add_one_hour :: "naive_dt \<Rightarrow> exc + naive_dt" where
  "add_one_hour dt =
     (if hour dt < 23 then Inr (dt \<lparr> hour := hour dt + 1 \<rparr>)
      else if day dt < days_in_month (year dt) (month dt)
      then Inr (dt \<lparr> day := day dt + 1, hour := 0 \<rparr>)
      else if month dt < 12 then Inr (dt \<lparr> month := month dt + 1, day := 1, hour := 0 \<rparr>)
      else if year dt < 9999
      then Inr (dt \<lparr> year := year dt + 1, month := 1, day := 1, hour := 0 \<rparr>)
      else Inl OverflowError)"

definition get_timezone_for_location :: "tz_env \<Rightarrow> real \<Rightarrow> real \<Rightarrow> string option" where
  "get_timezone_for_location env lat lon =
     (case tf_timezone_at env lat lon of Inl e \<Rightarrow> None | Inr r \<Rightarrow> r)"

text \<open>The \<open>try\<close> block that builds a zone from a name and falls back to UTC.\<close>

definition zone_by_name :: "tz_env \<Rightarrow> string \<Rightarrow> tzobj \<times> string" where
  "zone_by_name env name =
     (if zoneinfo_available env
      then (if zoneinfo_ctor env name then (ZoneInfoTz name, name) else (PytzUTC, ''UTC''))
      else (if pytz_timezone env name then (PytzTz name, name) else (PytzUTC, ''UTC'')))"

text \<open>The zone from the coordinates, when both are given.\<close>

definition zone_by_coordinates :: "tz_env \<Rightarrow> real option \<Rightarrow> real option \<Rightarrow> tzobj \<times> string" where
  "zone_by_coordinates env lat lon =
     (case (lat, lon) of
        (Some la, Some lo) \<Rightarrow>
          (case get_timezone_for_location env la lo of
             Some tz_str \<Rightarrow>
               if tz_str \<noteq> [] then zone_by_name env tz_str else (PytzUTC, ''UTC'')
           | None \<Rightarrow> (PytzUTC, ''UTC''))
      | _ \<Rightarrow> (PytzUTC, ''UTC''))"

definition choose_zone ::
  "tz_env \<Rightarrow> string option \<Rightarrow> real option \<Rightarrow> real option \<Rightarrow> tzobj \<times> string" where
  "choose_zone env timezone_str lat lon =
     (case timezone_str of
        Some name \<Rightarrow>
          if name \<noteq> [] then zone_by_name env name else zone_by_coordinates env lat lon
      | None \<Rightarrow> zone_by_coordinates env lat lon)"

text \<open>\<open>hasattr(tz, 'localize')\<close>: true of a pytz zone, false of a \<open>ZoneInfo\<close>.\<close>

fun has_localize :: "tzobj \<Rightarrow> bool" where
  "has_localize (ZoneInfoTz n) = False"
| "has_localize (PytzTz n) = True"
| "has_localize PytzUTC = True"

text \<open>\<open>dt_naive.replace(tzinfo=tz)\<close>: the wall-clock fields stay as they are.\<close>

definition replace_tzinfo :: "tz_env \<Rightarrow> naive_dt \<Rightarrow> tzobj \<Rightarrow> aware_dt" where
  "replace_tzinfo env dt tz =
     \<lparr> wall = dt, tzinfo = tz, utcoffset_minutes = zone_utcoffset env tz dt \<rparr>"

text \<open>The branch for a zone with \<open>localize\<close>.\<close>

definition localize_with_dst_handling :: "tz_env \<Rightarrow> tzobj \<Rightarrow> naive_dt \<Rightarrow> exc + aware_dt" where
  "localize_with_dst_handling env tz dt_naive =
     (case localize env tz dt_naive of
        Inr dt_local \<Rightarrow> Inr dt_local
      | Inl AmbiguousTimeError \<Rightarrow> localize_is_dst env tz dt_naive False
      | Inl NonExistentTimeError \<Rightarrow>
          (case add_one_hour dt_naive of
             Inl e \<Rightarrow> Inl e
           | Inr dt_adjusted \<Rightarrow> localize env tz dt_adjusted)
      | Inl e \<Rightarrow> Inl e)"

definition parse_datetime_with_timezone ::
  "tz_env \<Rightarrow> string \<Rightarrow> string \<Rightarrow> string option \<Rightarrow> real option \<Rightarrow> real option
     \<Rightarrow> exc + (aware_dt \<times> naive_dt \<times> string)" where
  "parse_datetime_with_timezone env date_str time_str timezone_str lat lon =
     (case strptime env (date_str @ '' '' @ time_str) of
        Inl e \<Rightarrow> Inl e
      | Inr dt_naive \<Rightarrow>
          (let (tz, timezone_used) = choose_zone env timezone_str lat lon
           in case (if zoneinfo_available env \<or> has_localize tz
                    then (if has_localize tz then localize_with_dst_handling env tz dt_naive
                          else Inr (replace_tzinfo env dt_naive tz))
                    else Inr (replace_tzinfo env dt_naive tz)) of
                Inl e \<Rightarrow> Inl e
              | Inr dt_local \<Rightarrow> Inr (dt_local, astimezone_utc env dt_local, timezone_used)))"

section \<open>The entry point (judgment engine)\<close>

text \<open>
  The collaborators of \<open>judge_question\<close>: the configuration lookup, the geocoder, the
  clock, the chart calculation, the question analyzer and the functions that build the
  data shown with a judgment. Each may raise. The exceptions of the model are those that
  derive from \<open>Exception\<close>.
\<close>

record pipeline =
  load_cfg :: "exc + config"
  geolocator_available :: bool
  safe_geocode :: "string \<Rightarrow> exc + (real \<times> real \<times> string)"
  get_current_time_for_location :: "real \<Rightarrow> real \<Rightarrow> exc + (aware_dt \<times> naive_dt \<times> string)"
  calculate_chart ::
    "aware_dt \<Rightarrow> naive_dt \<Rightarrow> string \<Rightarrow> real \<Rightarrow> real \<Rightarrow> string \<Rightarrow> exc + HoraryChart"
  analyze_question :: "string \<Rightarrow> exc + question_analysis"
  build_display_data :: "HoraryChart \<Rightarrow> question_analysis \<Rightarrow> exc + unit"

text \<open>\<open>str(e)\<close> of an exception.\<close>

fun exc_message :: "exc \<Rightarrow> string" where
  "exc_message (LocationError m) = m"
| "exc_message (ValueError m) = m"
| "exc_message ZeroDivisionError = ''float division by zero''"
| "exc_message IndexError = ''list index out of range''"
| "exc_message AmbiguousTimeError = ''ambiguous time''"
| "exc_message NonExistentTimeError = ''non-existent time''"
| "exc_message OverflowError = ''date value out of range''"
| "exc_message (OtherException m) = m"

text \<open>The dictionary \<open>judge_question\<close> returns; the keys that only carry data for
  display are left out. The two error dictionaries have no key \<open>question\<close>.\<close>

record judge_result =
  question :: "string option"
  jq_error :: "string option"
  jq_error_type :: "string option"
  jq_judgment :: string
  jq_confidence :: int
  jq_reasoning :: "msg list"
  jq_timing :: "msg option"
  jq_question_analysis :: "question_analysis option"
  jq_timezone :: "string option"

text \<open>The override of the analysis by \<open>manual_houses\<close>, when the list is not empty.\<close>

definition apply_manual_houses :: "int list option \<Rightarrow> question_analysis \<Rightarrow> question_analysis" where
  "apply_manual_houses manual_houses qa =
     (case manual_houses of
        None \<Rightarrow> qa
      | Some mh \<Rightarrow>
          if mh = [] then qa
          else qa \<lparr> relevant_houses := mh,
                    quesited_house := (if length mh > 1 then mh ! 1 else 7) \<rparr>)"

text \<open>The date and time of the question: the clock, or the parsed strings, which must
  both be given and not empty.\<close>

definition question_time ::
  "pipeline \<Rightarrow> tz_env \<Rightarrow> bool \<Rightarrow> string option \<Rightarrow> string option \<Rightarrow> string option
     \<Rightarrow> real \<Rightarrow> real \<Rightarrow> exc + (aware_dt \<times> naive_dt \<times> string)" where
  "question_time pl env use_current_time date_str time_str timezone_str lat lon =
     (if use_current_time then get_current_time_for_location pl lat lon
      else
        (case (date_str, time_str) of
           (Some d, Some t) \<Rightarrow>
             if d = [] \<or> t = []
             then Inl (ValueError ''Date and time must be provided when not using current time'')
             else parse_datetime_with_timezone env d t timezone_str (Some lat) (Some lon)
         | _ \<Rightarrow> Inl (ValueError ''Date and time must be provided when not using current time'')))"

text \<open>The body of the \<open>try\<close> statement.\<close>

definition judge_question_try ::
  "pipeline \<Rightarrow> horary_math \<Rightarrow> tz_env \<Rightarrow> string \<Rightarrow> string \<Rightarrow> string option \<Rightarrow> string option
     \<Rightarrow> string option \<Rightarrow> bool \<Rightarrow> int list option \<Rightarrow> bool \<Rightarrow> bool \<Rightarrow> bool \<Rightarrow> bool
     \<Rightarrow> real option \<Rightarrow> exc + judge_result" where
  "judge_question_try pl hm env qtext location date_str time_str timezone_str
       use_current_time manual_houses ignore_radicality ignore_void_moon ignore_combustion
       ignore_saturn_7th exaltation_confidence_boost =
     (case load_cfg pl of
        Inl e \<Rightarrow> Inl e
      | Inr cfg \<Rightarrow>
         (let boost = (case exaltation_confidence_boost of
                         None \<Rightarrow> mutual_exaltation_bonus (confidence cfg)
                       | Some b \<Rightarrow> b)
          in case (if geolocator_available pl then safe_geocode pl location
                   else Inl (LocationError ''Geocoding service not available'')) of
               Inl e \<Rightarrow> Inl e
             | Inr (lat, lon, full_location) \<Rightarrow>
                (case question_time pl env use_current_time date_str time_str timezone_str
                        lat lon of
                   Inl e \<Rightarrow> Inl e
                 | Inr (dt_local, dt_utc, timezone_used) \<Rightarrow>
                    (case calculate_chart pl dt_local dt_utc timezone_used lat lon full_location of
                       Inl e \<Rightarrow> Inl e
                     | Inr chart \<Rightarrow>
                        (case analyze_question pl qtext of
                           Inl e \<Rightarrow> Inl e
                         | Inr qa0 \<Rightarrow>
                            (let qa = apply_manual_houses manual_houses qa0
                             in case apply_enhanced_judgment hm cfg chart qa ignore_radicality
                                       ignore_void_moon ignore_combustion ignore_saturn_7th boost of
                                  Inl e \<Rightarrow> Inl e
                                | Inr j \<Rightarrow>
                                   (case build_display_data pl chart qa of
                                      Inl e \<Rightarrow> Inl e
                                    | Inr u \<Rightarrow>
                                       Inr \<lparr> question = Some qtext, jq_error = None,
                                             jq_error_type = None,
                                             jq_judgment = result j,
                                             jq_confidence = jconfidence j,
                                             jq_reasoning = reasoning j,
                                             jq_timing = jtiming j,
                                             jq_question_analysis = Some qa,
                                             jq_timezone = Some timezone_used \<rparr>)))))))"

text \<open>The \<open>try\<close> statement with its two handlers. The result is \<open>Inr\<close> of the dictionary
  returned, and \<open>Inl\<close> would be an exception that leaves the function.\<close>

definition judge_question ::
  "pipeline \<Rightarrow> horary_math \<Rightarrow> tz_env \<Rightarrow> string \<Rightarrow> string \<Rightarrow> string option \<Rightarrow> string option
     \<Rightarrow> string option \<Rightarrow> bool \<Rightarrow> int list option \<Rightarrow> bool \<Rightarrow> bool \<Rightarrow> bool \<Rightarrow> bool
     \<Rightarrow> real option \<Rightarrow> exc + judge_result" where
  "judge_question pl hm env qtext location date_str time_str timezone_str
       use_current_time manual_houses ignore_radicality ignore_void_moon ignore_combustion
       ignore_saturn_7th exaltation_confidence_boost =
     (case judge_question_try pl hm env qtext location date_str time_str timezone_str
             use_current_time manual_houses ignore_radicality ignore_void_moon
             ignore_combustion ignore_saturn_7th exaltation_confidence_boost of
        Inr r \<Rightarrow> Inr r
      | Inl (LocationError m) \<Rightarrow>
          Inr \<lparr> question = None, jq_error = Some m, jq_error_type = Some ''LocationError'',
                jq_judgment = ''LOCATION_ERROR'', jq_confidence = 0,
                jq_reasoning = [[S ''Location error: '', S m]], jq_timing = None,
                jq_question_analysis = None, jq_timezone = None \<rparr>
      | Inl e \<Rightarrow>
          Inr \<lparr> question = None, jq_error = Some (exc_message e), jq_error_type = None,
                jq_judgment = ''ERROR'', jq_confidence = 0,
                jq_reasoning = [[S ''Calculation error: '', S (exc_message e)]],
                jq_timing = None, jq_question_analysis = None, jq_timezone = None \<rparr>)"

section \<open>Example data\<close>

text \<open>
  A configuration, collaborators and charts on which the theorems below are exercised.
  The thresholds 3 and 27 of the ascendant, the base confidence 100, the favorable lunar
  cap 80, the combustion orb 8.5, the under-beams orb 15 and the Moon speed 13 are the
  values the repository's tests name; the other numbers are examples.
\<close>

definition example_config :: config where
  "example_config =
     \<lparr> confidence =
         \<lparr> base_confidence = 100,
           solar = \<lparr> cazimi_bonus = 15, combustion_penalty = 10 \<rparr>,
           perfection =
             \<lparr> direct_with_mutual_rulership = 95, direct_with_mutual_exaltation = 85,
               direct_basic = 80, translation_of_light = 75, collection_of_light = 70,
               reception_only = 70 \<rparr>,
           lunar_confidence_caps =
             \<lparr> cap_favorable = 80, cap_unfavorable = 80, cap_neutral = 50 \<rparr>,
           denial = \<lparr> prohibition = 85, frustration_retrograde = 80 \<rparr>,
           mutual_exaltation_bonus = 15 \<rparr>,
       radicality =
         \<lparr> asc_too_early = 3, asc_too_late = 27, saturn_7th_enabled = True,
           via_combusta_enabled = True,
           via_combusta = \<lparr> libra_start = 15, scorpio_full = True, capricorn_start = 15 \<rparr> \<rparr>,
       automatic_denial = False,
       moon =
         \<lparr> void_rule = ''by_sign'',
           void_exceptions = \<lparr> exc_cancer = True, exc_sagittarius = True, exc_taurus = True \<rparr>,
           translation = \<lparr> require_speed_advantage = False, require_proper_sequence = False \<rparr>,
           collection = \<lparr> require_collector_dignity = True, minimum_dignity_score = 0 \<rparr>,
           phase_bonus =
             \<lparr> new_moon = - 1, waxing_crescent = 1, first_quarter = 2, waxing_gibbous = 1,
               full_moon = 0, waning_gibbous = - 1, last_quarter = - 2, waning_crescent = - 1 \<rparr>,
           speed_bonus =
             \<lparr> very_slow = - 2, slow = - 1, average = 0, fast = 1, very_fast = 2 \<rparr>,
           angularity_bonus = \<lparr> angular = 1, succedent = 0, cadent = - 1 \<rparr> \<rparr>,
       orbs =
         \<lparr> void_orb_deg = 1 / 2, cazimi_orb_arcmin = 17, combustion_orb = 17 / 2,
           under_beams_orb = 15 \<rparr>,
       timing = \<lparr> stationary_speed_threshold = 1 / 1000, timing_precision_days = 1 / 8 \<rparr> \<rparr>"

text \<open>Modelled from the spec: the helpers of the module \<open>_horary_math\<close>, which is not
  part of the sources at hand. The days to a sign exit are computed directionally from
  the signed speed; the elongation is the angular separation of at most 180 degrees. The
  separation-order check and the Sun's altitude are fixed answers, and the Moon's speed
  is the configured fallback.\<close>

definition example_math :: horary_math where
  "example_math =
     \<lparr> days_to_sign_exit = (\<lambda>lon sp.
         if sp = 0 then None
         else if sp > 0 then Some ((30 - fmod lon 30) / sp)
         else Some (fmod lon 30 / - sp)),
       check_aspect_separation_order = (\<lambda>lon1 sp1 lon2 sp2 deg jd. False),
       calculate_elongation = (\<lambda>a b. let d = \<bar>a - b\<bar> in if d > 180 then 360 - d else d),
       sun_altitude_at_civil_twilight = (\<lambda>lat lon jd. - 6),
       get_real_moon_speed = (\<lambda>jd. 13) \<rparr>"

definition example_position :: "Planet \<Rightarrow> real \<Rightarrow> Sign \<Rightarrow> real \<Rightarrow> PlanetPosition" where
  "example_position p lon sg sp =
     \<lparr> planet = p, longitude = lon, latitude = 0, house = 2, sign = sg,
       dignity_score = 0, retrograde = (sp < 0), speed = sp \<rparr>"

text \<open>Gemini rises at 15 degrees. Mercury in Sagittarius and Jupiter in Virgo are in each
  other's signs, and Mercury applies to a square of Jupiter.\<close>

fun example_planets :: "Planet \<Rightarrow> PlanetPosition" where
  "example_planets SUN = example_position SUN 100 CANCER 1"
| "example_planets MOON = example_position MOON 20 ARIES 13"
| "example_planets MERCURY = example_position MERCURY 250 SAGITTARIUS (6 / 5)"
| "example_planets VENUS = example_position VENUS 130 LEO (11 / 10)"
| "example_planets MARS = example_position MARS 40 TAURUS (3 / 5)"
| "example_planets JUPITER = example_position JUPITER 162 VIRGO (1 / 10)"
| "example_planets SATURN = example_position SATURN 320 AQUARIUS (1 / 20)"

definition free_analysis :: "Planet \<Rightarrow> SolarAnalysis" where
  "free_analysis p =
     \<lparr> sa_planet = p, distance_from_sun = 90, condition = FREE,
       exact_cazimi = False, traditional_exception = False \<rparr>"

definition example_chart :: HoraryChart where
  "example_chart =
     \<lparr> planets = example_planets,
       aspects = [\<lparr> planet1 = MERCURY, planet2 = JUPITER, aspect = SQUARE, orb = 2,
                   applying = True, degrees_to_exact = 2 \<rparr>],
       houses = [75, 105, 135, 165, 195, 225, 255, 285, 315, 345, 15, 45],
       house_rulers = map_of [(1, MERCURY), (2, MOON), (3, SUN), (4, MERCURY), (5, VENUS),
         (6, MARS), (7, JUPITER), (8, SATURN), (9, SATURN), (10, JUPITER), (11, MARS),
         (12, VENUS)],
       ascendant = 75,
       midheaven = 345,
       solar_analyses = (\<lambda>p. Some (free_analysis p)),
       julian_day = 2460000,
       moon_last_aspect = None,
       moon_next_aspect = None \<rparr>"

definition example_question :: question_analysis where
  "example_question =
     \<lparr> question_type = ''marriage'', relevant_houses = [1, 7], quesited_house = 7 \<rparr>"

text \<open>The example chart with a Moon that stands still at 5 degrees of Aries, where
  aspects of the Sun, Mercury, Venus and Saturn still fall in the sign; and with the Moon
  at 29 degrees of Pisces, where none does.\<close>

definition stationary_chart :: HoraryChart where
  "stationary_chart =
     example_chart \<lparr> planets := example_planets (MOON := example_position MOON 5 ARIES 0) \<rparr>"

definition pisces_chart :: HoraryChart where
  "pisces_chart =
     example_chart \<lparr> planets := example_planets (MOON := example_position MOON 359 PISCES 13) \<rparr>"

text \<open>The Sun at 10 degrees of Gemini with Mars, and with Mercury, 12 degrees ahead of
  it in the same sign.\<close>

definition gemini_sun :: PlanetPosition where
  "gemini_sun = example_position SUN 70 GEMINI 1"

definition mars_under_beams :: PlanetPosition where
  "mars_under_beams = example_position MARS 82 GEMINI (3 / 5)"

definition mercury_in_gemini :: PlanetPosition where
  "mercury_in_gemini = example_position MERCURY 82 GEMINI (6 / 5)"




text \<open>
  A time-zone environment for America/New_York in 2021. Its \<open>localize\<close> raises for the
  ambiguous 01:30 of 7 November and for the missing 02:30 of 14 March, as the handlers of
  \<open>parse_datetime_with_timezone\<close> anticipate and as the repository's test double does; the
  offset of a \<open>ZoneInfo\<close> zone is the one of the first occurrence of a wall-clock time.
  The conversion to UTC is adequate for times that stay within the day. The flag says
  whether \<open>ZoneInfo\<close> could be imported.
\<close>

definition nov7_0130 :: naive_dt where
  "nov7_0130 = \<lparr> year = 2021, month = 11, day = 7, hour = 1, minute = 30 \<rparr>"

definition mar14_0230 :: naive_dt where
  "mar14_0230 = \<lparr> year = 2021, month = 3, day = 14, hour = 2, minute = 30 \<rparr>"

definition example_strptime :: "string \<Rightarrow> exc + naive_dt" where
  "example_strptime s =
     (if s = ''2021-11-07 01:30'' then Inr nov7_0130
      else if s = ''2021-03-14 02:30'' then Inr mar14_0230
      else Inl (ValueError ''time data does not match format''))"

definition ny_offset :: "naive_dt \<Rightarrow> int" where
  "ny_offset dt =
     (if (3 < month dt \<and> month dt < 11)
         \<or> (month dt = 3 \<and> (day dt > 14 \<or> (day dt = 14 \<and> hour dt \<ge> 3)))
         \<or> (month dt = 11 \<and> (day dt < 7 \<or> (day dt = 7 \<and> hour dt < 2)))
      then - 240 else - 300)"

definition example_astimezone_utc :: "aware_dt \<Rightarrow> naive_dt" where
  "example_astimezone_utc a =
     (let m = hour (wall a) * 60 + minute (wall a) - utcoffset_minutes a
      in (wall a) \<lparr> hour := m div 60, minute := m mod 60 \<rparr>)"

definition example_tz_env :: "bool \<Rightarrow> tz_env" where
  "example_tz_env zi =
     \<lparr> zoneinfo_available = zi,
       zoneinfo_ctor = (\<lambda>name. name = ''America/New_York''),
       pytz_timezone = (\<lambda>name. name = ''America/New_York''),
       tf_timezone_at = (\<lambda>lat lon. Inr (Some ''America/New_York'')),
       strptime = example_strptime,
       localize = (\<lambda>tz dt.
         if tz = PytzUTC then Inr \<lparr> wall = dt, tzinfo = tz, utcoffset_minutes = 0 \<rparr>
         else if dt = nov7_0130 then Inl AmbiguousTimeError
         else if dt = mar14_0230 then Inl NonExistentTimeError
         else Inr \<lparr> wall = dt, tzinfo = tz, utcoffset_minutes = ny_offset dt \<rparr>),
       localize_is_dst = (\<lambda>tz dt is_dst.
         Inr \<lparr> wall = dt, tzinfo = tz,
               utcoffset_minutes = (if tz = PytzUTC then 0 else if is_dst then - 240 else - 300) \<rparr>),
       zone_utcoffset = (\<lambda>tz dt. if tz = PytzUTC then 0 else ny_offset dt),
       astimezone_utc = example_astimezone_utc \<rparr>"

text \<open>Collaborators of the entry point: a geocoder that knows one place, a fixed clock,
  and a chart calculation that returns the example chart or fails for want of its
  ephemeris.\<close>

definition example_now :: "aware_dt \<times> naive_dt \<times> string" where
  "example_now =
     (\<lparr> wall = \<lparr> year = 2024, month = 1, day = 1, hour = 12, minute = 0 \<rparr>,
        tzinfo = ZoneInfoTz ''Europe/London'', utcoffset_minutes = 0 \<rparr>,
      \<lparr> year = 2024, month = 1, day = 1, hour = 12, minute = 0 \<rparr>,
      ''Europe/London'')"

definition example_pipeline :: "bool \<Rightarrow> pipeline" where
  "example_pipeline ephemeris_ok =
     \<lparr> load_cfg = Inr example_config,
       geolocator_available = True,
       safe_geocode = (\<lambda>location.
         if location = ''London, UK''
         then Inr (51 + 5074 / 10000, - (1278 / 10000), ''London, UK'')
         else Inl (LocationError ''Location not found'')),
       get_current_time_for_location = (\<lambda>lat lon. Inr example_now),
       calculate_chart = (\<lambda>dt_local dt_utc tz lat lon name.
         if ephemeris_ok then Inr example_chart
         else Inl (OtherException ''ephemeris files not found'')),
       analyze_question = (\<lambda>q. Inr example_question),
       build_display_data = (\<lambda>chart qa. Inr ()) \<rparr>"

text \<open>The example chart with Venus 5 degrees from the Sun and combust; a configuration with
  a base confidence of 5; the square of the example chart as the dictionary
  \<open>_find_applying_aspect\<close> returns; and the verdict and the confidence of a judgment that
  was returned.\<close>

definition combust_venus :: SolarAnalysis where
  "combust_venus =
     \<lparr> sa_planet = VENUS, distance_from_sun = 5, condition = COMBUSTION,
       exact_cazimi = False, traditional_exception = False \<rparr>"

definition combust_chart :: HoraryChart where
  "combust_chart =
     example_chart
       \<lparr> planets := example_planets (VENUS := example_position VENUS 105 CANCER (11 / 10)),
         solar_analyses := (\<lambda>p. Some (free_analysis p)) (VENUS \<mapsto> combust_venus) \<rparr>"

definition low_base_config :: config where
  "low_base_config =
     example_config \<lparr> confidence := (confidence example_config) \<lparr> base_confidence := 5 \<rparr> \<rparr>"

definition example_square :: applying_aspect where
  "example_square = \<lparr> aa_aspect = SQUARE, aa_orb = 2, aa_degrees_to_exact = 2 \<rparr>"

definition judged_result :: "exc + judgment_result \<Rightarrow> string option" where
  "judged_result x = (case x of Inl e \<Rightarrow> None | Inr j \<Rightarrow> Some (result j))"

definition judged_confidence :: "exc + judgment_result \<Rightarrow> int option" where
  "judged_confidence x = (case x of Inl e \<Rightarrow> None | Inr j \<Rightarrow> Some (jconfidence j))"

text \<open>Every confidence value, bonus and penalty of the configuration that the judgment
  reads lies in [0, 100].\<close>

definition confidence_values_in_range :: "config \<Rightarrow> bool" where
  "confidence_values_in_range cfg =
     (let c = confidence cfg; pc = perfection c; caps = lunar_confidence_caps c; dc = denial c
      in 0 \<le> base_confidence c \<and> base_confidence c \<le> 100
         \<and> 0 \<le> cazimi_bonus (solar c) \<and> cazimi_bonus (solar c) \<le> 100
         \<and> 0 \<le> combustion_penalty (solar c) \<and> combustion_penalty (solar c) \<le> 100
         \<and> 0 \<le> direct_with_mutual_rulership pc \<and> direct_with_mutual_rulership pc \<le> 100
         \<and> 0 \<le> direct_with_mutual_exaltation pc \<and> direct_with_mutual_exaltation pc \<le> 100
         \<and> 0 \<le> direct_basic pc \<and> direct_basic pc \<le> 100
         \<and> 0 \<le> translation_of_light pc \<and> translation_of_light pc \<le> 100
         \<and> 0 \<le> collection_of_light pc \<and> collection_of_light pc \<le> 100
         \<and> 0 \<le> reception_only pc \<and> reception_only pc \<le> 100
         \<and> 0 \<le> cap_favorable caps \<and> cap_favorable caps \<le> 100
         \<and> 0 \<le> cap_unfavorable caps \<and> cap_unfavorable caps \<le> 100
         \<and> 0 \<le> cap_neutral caps \<and> cap_neutral caps \<le> 100
         \<and> 0 \<le> prohibition dc \<and> prohibition dc \<le> 100
         \<and> 0 \<le> frustration_retrograde dc \<and> frustration_retrograde dc \<le> 100)"

section \<open>Verified properties\<close>

subsection \<open>The Moon phase bonus\<close>

lemma phase_branch_waxing:
  assumes "0 \<le> e" "e \<le> 180"
  shows "phase_branch e \<in> {NewMoon, WaxingCrescent, FirstQuarter, WaxingGibbous, FullMoon}"
  using assms by (simp add: phase_branch_def)

lemma moon_sun_elongation_range:
  assumes "0 \<le> longitude (planets chart MOON)" "longitude (planets chart MOON) < 360"
    and "0 \<le> longitude (planets chart SUN)" "longitude (planets chart SUN) < 360"
  shows "0 \<le> moon_sun_elongation chart \<and> moon_sun_elongation chart \<le> 180"
  using assms by (auto simp: moon_sun_elongation_def Let_def abs_if)

text \<open>
  C10. In a chart whose longitudes of the Moon and the Sun lie in [0, 360), as the
  ephemeris gives them, the elongation that \<open>_moon_phase_bonus\<close> tests lies in [0, 180]:
  the branch taken is one of the first five, never one of the three waning branches, and
  the value returned is one of the five configuration values new_moon, waxing_crescent,
  first_quarter, waxing_gibbous, full_moon.
\<close>

theorem moon_phase_bonus_waxing_only:
  assumes "0 \<le> longitude (planets chart MOON)" "longitude (planets chart MOON) < 360"
    and "0 \<le> longitude (planets chart SUN)" "longitude (planets chart SUN) < 360"
  shows "0 \<le> moon_sun_elongation chart \<and> moon_sun_elongation chart \<le> 180
    \<and> phase_branch (moon_sun_elongation chart)
        \<in> {NewMoon, WaxingCrescent, FirstQuarter, WaxingGibbous, FullMoon}
    \<and> phase_branch (moon_sun_elongation chart) \<notin> {WaningGibbous, LastQuarter, WaningCrescent}
    \<and> moon_phase_bonus cfg chart
        \<in> {new_moon (phase_bonus (moon cfg)), waxing_crescent (phase_bonus (moon cfg)),
            first_quarter (phase_bonus (moon cfg)), waxing_gibbous (phase_bonus (moon cfg)),
            full_moon (phase_bonus (moon cfg))}"
proof -
  have r: "0 \<le> moon_sun_elongation chart \<and> moon_sun_elongation chart \<le> 180"
    using assms by (rule moon_sun_elongation_range)
  then have b: "phase_branch (moon_sun_elongation chart)
        \<in> {NewMoon, WaxingCrescent, FirstQuarter, WaxingGibbous, FullMoon}"
    using phase_branch_waxing by blast
  from b have n: "phase_branch (moon_sun_elongation chart)
        \<notin> {WaningGibbous, LastQuarter, WaningCrescent}"
    by auto
  from b have v: "moon_phase_bonus cfg chart
        \<in> {new_moon (phase_bonus (moon cfg)), waxing_crescent (phase_bonus (moon cfg)),
            first_quarter (phase_bonus (moon cfg)), waxing_gibbous (phase_bonus (moon cfg)),
            full_moon (phase_bonus (moon cfg))}"
    by (auto simp: moon_phase_bonus_def)
  from r b n v show ?thesis by blast
qed

theorem moon_phase_bonus_waxing_only_witness:
  "longitude (planets example_chart MOON) = 20 \<and> longitude (planets example_chart SUN) = 100
   \<and> moon_sun_elongation example_chart = 80
   \<and> phase_branch (moon_sun_elongation example_chart) = FirstQuarter
   \<and> moon_phase_bonus example_config example_chart = 2"
proof -
  have l: "longitude (planets example_chart MOON) = 20"
    "longitude (planets example_chart SUN) = 100"
    by (simp_all add: example_chart_def example_position_def)
  have e: "moon_sun_elongation example_chart = 80"
    by (simp add: moon_sun_elongation_def l)
  have b: "phase_branch (moon_sun_elongation example_chart) = FirstQuarter"
    by (simp add: e phase_branch_def)
  have v: "moon_phase_bonus example_config example_chart = 2"
    by (simp add: moon_phase_bonus_def b example_config_def)
  have "0 \<le> moon_sun_elongation example_chart"
    using moon_phase_bonus_waxing_only [of example_chart example_config] l by simp
  with l e b v show ?thesis by simp
qed

subsection \<open>Void of course\<close>

text \<open>
  C9. When the Moon's absolute speed is below the configured stationary threshold, the
  by-sign method returns void = false with the reason "Moon stationary - cannot be void
  of course", whatever aspects the chart holds; the lilly method, which delegates to it,
  returns void = false with a reason that starts with the same text.
\<close>

theorem stationary_moon_never_void:
  assumes "\<bar>speed (planets chart MOON)\<bar> < stationary_speed_threshold (timing cfg)"
  shows "void (void_by_sign_method cfg chart) = False
    \<and> vreason (void_by_sign_method cfg chart) = [S ''Moon stationary - cannot be void of course'']
    \<and> void (void_lilly_method cfg chart) = False
    \<and> take 1 (vreason (void_lilly_method cfg chart))
         = [S ''Moon stationary - cannot be void of course'']"
  using assms by (simp add: void_by_sign_method_def void_lilly_method_def Let_def)

lemma stationary_chart_future_aspects:
  "future_aspects_in_sign stationary_chart \<noteq> []"
  by (simp add: future_aspects_in_sign_def stationary_chart_def example_chart_def
      example_position_def planet_list_def aspect_list_def calculate_aspect_positions_def
      fmod_def Let_def)

theorem stationary_moon_never_void_witness:
  "\<bar>speed (planets stationary_chart MOON)\<bar> < stationary_speed_threshold (timing example_config)
   \<and> future_aspects_in_sign stationary_chart \<noteq> []
   \<and> void (void_by_sign_method example_config stationary_chart) = False
   \<and> void (void_lilly_method example_config stationary_chart) = False"
proof -
  have h: "\<bar>speed (planets stationary_chart MOON)\<bar>
             < stationary_speed_threshold (timing example_config)"
    by (simp add: stationary_chart_def example_chart_def example_position_def example_config_def)
  from stationary_moon_never_void [OF h] h stationary_chart_future_aspects
  show ?thesis by simp
qed

text \<open>
  C5, as amended. The lilly method returns the void flag and the degrees left of the
  by-sign method; its exception flag is true exactly when the Moon's sign is Cancer,
  Taurus, Sagittarius or Pisces, so a void Moon stays void under the exception; and its
  reason is the reason of the by-sign method, followed by a note naming the sign when
  the exception applies.
\<close>

theorem lilly_is_by_sign_with_exception:
  "void (void_lilly_method cfg chart) = void (void_by_sign_method cfg chart)
   \<and> degrees_left_in_sign (void_lilly_method cfg chart)
       = degrees_left_in_sign (void_by_sign_method cfg chart)
   \<and> exception (void_lilly_method cfg chart)
       = (sign (planets chart MOON) \<in> {CANCER, TAURUS, SAGITTARIUS, PISCES})
   \<and> vreason (void_lilly_method cfg chart)
       = vreason (void_by_sign_method cfg chart)
         @ (if sign (planets chart MOON) \<in> {CANCER, TAURUS, SAGITTARIUS, PISCES}
            then [S '' (Lilly exception: '', SignName (sign (planets chart MOON)), S '')'']
            else [])"
  by (simp add: void_lilly_method_def lilly_exceptions_def Let_def)

lemma pisces_chart_future_aspects: "future_aspects_in_sign pisces_chart = []"
  by (simp add: future_aspects_in_sign_def pisces_chart_def example_chart_def example_position_def
     planet_list_def aspect_list_def calculate_aspect_positions_def fmod_def Let_def)

lemma pisces_by_sign:
  "void_by_sign_method example_config pisces_chart =
     \<lparr> void = True, exception = False,
       vreason = [S ''Moon makes no more aspects before leaving '', SignName PISCES],
       degrees_left_in_sign = Some 1 \<rparr>"
  by (simp add: void_by_sign_method_def pisces_chart_future_aspects Let_def)
     (simp add: pisces_chart_def example_chart_def example_position_def example_config_def fmod_def)

theorem lilly_is_by_sign_with_exception_witness:
  "void (void_lilly_method example_config pisces_chart) = True
   \<and> exception (void_lilly_method example_config pisces_chart) = True
   \<and> vreason (void_lilly_method example_config pisces_chart)
       = [S ''Moon makes no more aspects before leaving '', SignName PISCES,
          S '' (Lilly exception: '', SignName PISCES, S '')'']"
proof -
  have s: "sign (planets pisces_chart MOON) = PISCES"
    by (simp add: pisces_chart_def example_position_def)
  from lilly_is_by_sign_with_exception [of example_config pisces_chart]
  show ?thesis by (simp add: pisces_by_sign s)
qed

text \<open>
  C5 as stated fails: with the Moon in Pisces the result of the lilly method is not the
  result of the by-sign method with only the exception flag replaced, because the
  reason differs too.
\<close>

theorem lilly_reason_counterexample:
  "void_lilly_method example_config pisces_chart
     \<noteq> (void_by_sign_method example_config pisces_chart) \<lparr> exception := True \<rparr>"
proof -
  have s: "sign (planets pisces_chart MOON) = PISCES"
    by (simp add: pisces_chart_def example_position_def)
  have "vreason (void_lilly_method example_config pisces_chart)
          \<noteq> vreason ((void_by_sign_method example_config pisces_chart) \<lparr> exception := True \<rparr>)"
    by (simp add: void_lilly_method_def lilly_exceptions_def Let_def s)
  then show ?thesis by auto
qed

subsection \<open>Solar conditions\<close>

text \<open>
  C3. For a planet other than the Sun, with e the elongation, the analyzer classifies by
  the first match: e at most the cazimi orb gives CAZIMI, with exact_cazimi true exactly
  within 3 arcminutes and traditional_exception false; else e at most the combustion orb
  gives COMBUSTION, or FREE with traditional_exception true when the visibility
  exception holds; else e at most the under-beams orb gives UNDER_BEAMS, or FREE with
  traditional_exception true when the exception holds; else FREE. At 12 degrees with a
  combustion orb of 8.5 and an under-beams orb of 15 (and a cazimi orb no wider than the
  combustion orb) the result is UNDER_BEAMS without the exception and FREE with
  traditional_exception true with it.
\<close>

theorem solar_condition_hierarchy:
  assumes "p \<noteq> SUN"
    and "e = calculate_elongation hm (longitude planet_pos) (longitude sun_pos)"
    and "ex = traditional_exception_flag hm p planet_pos sun_pos lat lon jd_ut"
    and "r = analyze_enhanced_solar_condition hm cfg p planet_pos sun_pos lat lon jd_ut"
    and "caz = cazimi_orb_arcmin (orbs cfg) / 60"
    and "comb = combustion_orb (orbs cfg)"
    and "ub = under_beams_orb (orbs cfg)"
  shows "distance_from_sun r = e
    \<and> (e \<le> caz \<longrightarrow>
          condition r = CAZIMI \<and> exact_cazimi r = (e \<le> 3 / 60) \<and> \<not> traditional_exception r)
    \<and> (caz < e \<and> e \<le> comb \<longrightarrow>
          (if ex then condition r = FREE \<and> traditional_exception r
           else condition r = COMBUSTION \<and> \<not> traditional_exception r))
    \<and> (caz < e \<and> comb < e \<and> e \<le> ub \<longrightarrow>
          (if ex then condition r = FREE \<and> traditional_exception r
           else condition r = UNDER_BEAMS \<and> \<not> traditional_exception r))
    \<and> (caz < e \<and> comb < e \<and> ub < e \<longrightarrow> condition r = FREE \<and> \<not> traditional_exception r)
    \<and> (e = 12 \<and> caz \<le> comb \<and> comb = 17 / 2 \<and> ub = 15 \<longrightarrow>
          (if ex then condition r = FREE \<and> traditional_exception r
           else condition r = UNDER_BEAMS \<and> \<not> traditional_exception r))"
  using assms by (simp add: analyze_enhanced_solar_condition_def Let_def)

lemma example_elongation_12: "calculate_elongation example_math 82 70 = 12"
  by (simp add: example_math_def)

lemma example_flag_mars: "\<not> traditional_exception_flag example_math MARS mars_under_beams gemini_sun 0 0 0"
  by (simp add: traditional_exception_flag_def combustion_resistant_def)

lemma example_flag_mercury: "traditional_exception_flag example_math MERCURY mercury_in_gemini gemini_sun 0 0 0"
  by (simp add: traditional_exception_flag_def combustion_resistant_def
      check_enhanced_combustion_exception_def mercury_in_gemini_def gemini_sun_def
      example_position_def example_elongation_12 Let_def)

theorem solar_condition_hierarchy_witness:
  "calculate_elongation example_math (longitude mars_under_beams) (longitude gemini_sun) = 12
   \<and> combustion_orb (orbs example_config) = 17 / 2
   \<and> under_beams_orb (orbs example_config) = 15
   \<and> condition (analyze_enhanced_solar_condition example_math example_config MARS
        mars_under_beams gemini_sun 0 0 0) = UNDER_BEAMS
   \<and> \<not> traditional_exception (analyze_enhanced_solar_condition example_math example_config MARS
        mars_under_beams gemini_sun 0 0 0)
   \<and> traditional_exception_flag example_math MERCURY mercury_in_gemini gemini_sun 0 0 0
   \<and> condition (analyze_enhanced_solar_condition example_math example_config MERCURY
        mercury_in_gemini gemini_sun 0 0 0) = FREE
   \<and> traditional_exception (analyze_enhanced_solar_condition example_math example_config MERCURY
        mercury_in_gemini gemini_sun 0 0 0)"
proof -
  have e1: "calculate_elongation example_math (longitude mars_under_beams) (longitude gemini_sun) = 12"
    by (simp add: mars_under_beams_def gemini_sun_def example_position_def example_elongation_12)
  have e2: "calculate_elongation example_math (longitude mercury_in_gemini) (longitude gemini_sun) = 12"
    by (simp add: mercury_in_gemini_def gemini_sun_def example_position_def example_elongation_12)
  have o: "cazimi_orb_arcmin (orbs example_config) / 60 \<le> combustion_orb (orbs example_config)"
    "combustion_orb (orbs example_config) = 17 / 2" "under_beams_orb (orbs example_config) = 15"
    by (simp_all add: example_config_def)
  have m: "MARS \<noteq> SUN" "MERCURY \<noteq> SUN" by simp_all
  from solar_condition_hierarchy [OF m(1) e1 [symmetric] refl refl refl refl refl,
      of example_config 0 0 0] o example_flag_mars
  have a: "condition (analyze_enhanced_solar_condition example_math example_config MARS
        mars_under_beams gemini_sun 0 0 0) = UNDER_BEAMS
      \<and> \<not> traditional_exception (analyze_enhanced_solar_condition example_math example_config MARS
        mars_under_beams gemini_sun 0 0 0)"
    by simp
  from solar_condition_hierarchy [OF m(2) e2 [symmetric] refl refl refl refl refl,
      of example_config 0 0 0] o example_flag_mercury
  have b: "condition (analyze_enhanced_solar_condition example_math example_config MERCURY
        mercury_in_gemini gemini_sun 0 0 0) = FREE
      \<and> traditional_exception (analyze_enhanced_solar_condition example_math example_config MERCURY
        mercury_in_gemini gemini_sun 0 0 0)"
    by simp
  from a b e1 o example_flag_mercury show ?thesis by simp
qed

subsection \<open>Applying aspects and sign exits\<close>


















subsection \<open>Daylight-saving edge cases\<close>




lemma example_parse_spring_forward:
  "parse_datetime_with_timezone (example_tz_env False) ''2021-03-14'' ''02:30'' None
     (Some (40 + 7128 / 10000)) (Some (- 74 - 6 / 1000))
   = Inr (\<lparr> wall = \<lparr> year = 2021, month = 3, day = 14, hour = 3, minute = 30 \<rparr>,
            tzinfo = PytzTz ''America/New_York'', utcoffset_minutes = - 240 \<rparr>,
          \<lparr> year = 2021, month = 3, day = 14, hour = 7, minute = 30 \<rparr>,
          ''America/New_York'')"
  by (simp add: parse_datetime_with_timezone_def choose_zone_def zone_by_coordinates_def
      zone_by_name_def get_timezone_for_location_def localize_with_dst_handling_def
      example_tz_env_def example_strptime_def example_astimezone_utc_def mar14_0230_def
      nov7_0130_def add_one_hour_def ny_offset_def)



lemma zoneinfo_fall_back_example:
  "parse_datetime_with_timezone (example_tz_env True) ''2021-11-07'' ''01:30''
     (Some ''America/New_York'') None None
   = Inr (\<lparr> wall = nov7_0130, tzinfo = ZoneInfoTz ''America/New_York'',
            utcoffset_minutes = - 240 \<rparr>,
          \<lparr> year = 2021, month = 11, day = 7, hour = 5, minute = 30 \<rparr>,
          ''America/New_York'')"
  by (simp add: parse_datetime_with_timezone_def choose_zone_def zone_by_name_def
      replace_tzinfo_def example_tz_env_def example_strptime_def example_astimezone_utc_def
      nov7_0130_def ny_offset_def)

subsection \<open>The entry point never raises\<close>

text \<open>
  C7. \<open>judge_question\<close> always returns a dictionary: when its body raises a
  \<open>LocationError\<close> with message m (as a failed geocoding, or a missing geocoder, makes
  it do) the result has judgment LOCATION_ERROR, confidence 0 and the reasoning
  "Location error: m"; when the body raises any other exception e the result has
  judgment ERROR, confidence 0 and the reasoning "Calculation error: " followed by the
  message of e; otherwise the result is the one the body built.
\<close>

theorem judge_question_never_raises:
  assumes "t = judge_question_try pl hm env qtext location date_str time_str timezone_str
             use_current_time manual_houses ignore_radicality ignore_void_moon
             ignore_combustion ignore_saturn_7th boost"
    and "j = judge_question pl hm env qtext location date_str time_str timezone_str
             use_current_time manual_houses ignore_radicality ignore_void_moon
             ignore_combustion ignore_saturn_7th boost"
  shows "(\<exists>r. j = Inr r)
    \<and> (\<forall>m. t = Inl (LocationError m) \<longrightarrow>
          (\<exists>r. j = Inr r \<and> jq_judgment r = ''LOCATION_ERROR'' \<and> jq_confidence r = 0
               \<and> jq_reasoning r = [[S ''Location error: '', S m]] \<and> jq_error r = Some m))
    \<and> (\<forall>e. t = Inl e \<and> (\<forall>m. e \<noteq> LocationError m) \<longrightarrow>
          (\<exists>r. j = Inr r \<and> jq_judgment r = ''ERROR'' \<and> jq_confidence r = 0
               \<and> jq_reasoning r = [[S ''Calculation error: '', S (exc_message e)]]
               \<and> jq_error r = Some (exc_message e)))
    \<and> (\<forall>r. t = Inr r \<longrightarrow> j = Inr r)
    \<and> (\<forall>cfg m. load_cfg pl = Inr cfg \<and> geolocator_available pl
          \<and> safe_geocode pl location = Inl (LocationError m) \<longrightarrow> t = Inl (LocationError m))
    \<and> (\<forall>cfg. load_cfg pl = Inr cfg \<and> \<not> geolocator_available pl \<longrightarrow>
          t = Inl (LocationError ''Geocoding service not available''))"
proof -
  have j: "j = (case t of Inr r \<Rightarrow> Inr r
      | Inl (LocationError m) \<Rightarrow>
          Inr \<lparr> question = None, jq_error = Some m, jq_error_type = Some ''LocationError'',
                jq_judgment = ''LOCATION_ERROR'', jq_confidence = 0,
                jq_reasoning = [[S ''Location error: '', S m]], jq_timing = None,
                jq_question_analysis = None, jq_timezone = None \<rparr>
      | Inl e \<Rightarrow>
          Inr \<lparr> question = None, jq_error = Some (exc_message e), jq_error_type = None,
                jq_judgment = ''ERROR'', jq_confidence = 0,
                jq_reasoning = [[S ''Calculation error: '', S (exc_message e)]],
                jq_timing = None, jq_question_analysis = None, jq_timezone = None \<rparr>)"
    unfolding assms judge_question_def ..
  have a: "\<exists>r. j = Inr r"
    unfolding j by (simp split: sum.split exc.split)
  have b: "\<exists>r. j = Inr r \<and> jq_judgment r = ''LOCATION_ERROR'' \<and> jq_confidence r = 0
               \<and> jq_reasoning r = [[S ''Location error: '', S m]] \<and> jq_error r = Some m"
    if "t = Inl (LocationError m)" for m
    unfolding j using that by simp
  have c: "\<exists>r. j = Inr r \<and> jq_judgment r = ''ERROR'' \<and> jq_confidence r = 0
               \<and> jq_reasoning r = [[S ''Calculation error: '', S (exc_message e)]]
               \<and> jq_error r = Some (exc_message e)"
    if "t = Inl e \<and> (\<forall>m. e \<noteq> LocationError m)" for e
    unfolding j using that by (cases e) simp_all
  have d: "j = Inr r" if "t = Inr r" for r
    unfolding j using that by simp
  have e: "t = Inl (LocationError m)"
    if "load_cfg pl = Inr cfg \<and> geolocator_available pl
          \<and> safe_geocode pl location = Inl (LocationError m)" for cfg m
    unfolding assms judge_question_try_def using that by simp
  have f: "t = Inl (LocationError ''Geocoding service not available'')"
    if "load_cfg pl = Inr cfg \<and> \<not> geolocator_available pl" for cfg
    unfolding assms judge_question_try_def using that by simp
  from a b c d e f show ?thesis by blast
qed


lemma example_try_location:
  "judge_question_try (example_pipeline True) example_math (example_tz_env True)
     ''Will I marry soon?'' ''Atlantis'' None None None True None False False False False None
   = Inl (LocationError ''Location not found'')"
  by (simp add: judge_question_try_def example_pipeline_def)

lemma example_try_ephemeris:
  "judge_question_try (example_pipeline False) example_math (example_tz_env True)
     ''Will I marry soon?'' ''London, UK'' None None None True None False False False False None
   = Inl (OtherException ''ephemeris files not found'')"
  by (simp add: judge_question_try_def example_pipeline_def question_time_def example_now_def)

theorem judge_question_never_raises_witness:
  "judge_question (example_pipeline True) example_math (example_tz_env True)
     ''Will I marry soon?'' ''Atlantis'' None None None True None False False False False None
   = Inr \<lparr> question = None, jq_error = Some ''Location not found'',
           jq_error_type = Some ''LocationError'', jq_judgment = ''LOCATION_ERROR'',
           jq_confidence = 0,
           jq_reasoning = [[S ''Location error: '', S ''Location not found'']],
           jq_timing = None, jq_question_analysis = None, jq_timezone = None \<rparr>
   \<and> judge_question (example_pipeline False) example_math (example_tz_env True)
     ''Will I marry soon?'' ''London, UK'' None None None True None False False False False None
   = Inr \<lparr> question = None, jq_error = Some ''ephemeris files not found'',
           jq_error_type = None, jq_judgment = ''ERROR'', jq_confidence = 0,
           jq_reasoning = [[S ''Calculation error: '', S ''ephemeris files not found'']],
           jq_timing = None, jq_question_analysis = None, jq_timezone = None \<rparr>"
proof -
  from judge_question_never_raises [OF refl refl, of "example_pipeline True" example_math
      "example_tz_env True" "''Will I marry soon?''" "''Atlantis''" None None None True None
      False False False False None] example_try_location
  obtain r where r: "judge_question (example_pipeline True) example_math (example_tz_env True)
     ''Will I marry soon?'' ''Atlantis'' None None None True None False False False False None
     = Inr r" "jq_judgment r = ''LOCATION_ERROR''"
    by blast
  have a: "r = \<lparr> question = None, jq_error = Some ''Location not found'',
           jq_error_type = Some ''LocationError'', jq_judgment = ''LOCATION_ERROR'',
           jq_confidence = 0,
           jq_reasoning = [[S ''Location error: '', S ''Location not found'']],
           jq_timing = None, jq_question_analysis = None, jq_timezone = None \<rparr>"
    using r(1) by (simp add: judge_question_def example_try_location)
  have b: "judge_question (example_pipeline False) example_math (example_tz_env True)
     ''Will I marry soon?'' ''London, UK'' None None None True None False False False False None
   = Inr \<lparr> question = None, jq_error = Some ''ephemeris files not found'',
           jq_error_type = None, jq_judgment = ''ERROR'', jq_confidence = 0,
           jq_reasoning = [[S ''Calculation error: '', S ''ephemeris files not found'']],
           jq_timing = None, jq_question_analysis = None, jq_timezone = None \<rparr>"
    by (simp add: judge_question_def example_try_ephemeris)
  from r(1) a b show ?thesis by simp
qed

subsection \<open>Confidence of a judgment\<close>

lemma py_int_min_le: "py_int (min 100 x) \<le> 100"
  by (simp add: py_int_def min_def floor_le_iff ceiling_le_iff)

lemma py_int_min_nonneg: "0 \<le> x \<Longrightarrow> 0 \<le> py_int (min 100 x)"
  by (simp add: py_int_def min_def)

lemma perfection_confidence_bounds:
  assumes "confidence_values_in_range cfg"
    and "check_enhanced_perfection hm cfg chart querent quesited boost = Perfects pf"
  shows "pconfidence pf \<le> 100 \<and> (0 \<le> boost \<longrightarrow> 0 \<le> pconfidence pf)"
proof -
  let ?pc = "perfection (confidence cfg)"
  have r: "pconfidence pf \<in> {direct_with_mutual_rulership ?pc, direct_basic ?pc,
      translation_of_light ?pc, collection_of_light ?pc, reception_only ?pc,
      py_int (min 100 (of_int (direct_with_mutual_exaltation ?pc) + boost)),
      py_int (min 100 (of_int (reception_only ?pc) + boost))}"
    using assms(2)
    by (auto simp: check_enhanced_perfection_def Let_def split: option.splits if_splits)
  have e: "0 \<le> boost \<Longrightarrow> 0 \<le> (of_int (direct_with_mutual_exaltation ?pc) :: real) + boost"
    "0 \<le> boost \<Longrightarrow> 0 \<le> (of_int (reception_only ?pc) :: real) + boost"
    using assms(1) by (simp_all add: confidence_values_in_range_def Let_def)
  from r assms(1) show ?thesis
    using py_int_min_le py_int_min_nonneg e
    by (auto simp: confidence_values_in_range_def Let_def)
qed

lemma denial_confidence_bounds:
  assumes "confidence_values_in_range cfg"
    and "check_enhanced_denial_conditions cfg chart querent quesited = Some (c, why)"
  shows "0 \<le> c \<and> c \<le> 100"
  using assms
  by (auto simp: check_enhanced_denial_conditions_def confidence_values_in_range_def Let_def
      split: option.splits if_splits)

lemma solar_adjusted_confidence_bounds:
  assumes "confidence_values_in_range cfg"
  shows "(combustion_penalty (solar (confidence cfg)) \<le> base_confidence (confidence cfg)
           \<longrightarrow> 0 \<le> solar_adjusted_confidence cfg sf ic)"
  using assms
  by (auto simp: solar_adjusted_confidence_def confidence_values_in_range_def Let_def)


lemma timing_returns:
  "get_real_moon_speed hm (julian_day chart) \<noteq> 0 \<Longrightarrow>
     \<exists>t. calculate_enhanced_timing hm chart pf = Inr t"
  by (simp add: calculate_enhanced_timing_def Let_def split: option.splits)

lemma judgment_not_radical:
  assumes "\<not> ignore_radicality"
    and "\<not> fst (check_enhanced_radicality cfg chart ignore_saturn_7th)"
  shows "\<exists>j. apply_enhanced_judgment hm cfg chart qa ignore_radicality ignore_void_moon
              ignore_combustion ignore_saturn_7th boost = Inr j
           \<and> result j = ''NOT RADICAL'' \<and> jconfidence j = 0"
  using assms by (simp add: apply_enhanced_judgment_def)

lemma judgment_cannot_judge:
  assumes "ignore_radicality \<or> fst (check_enhanced_radicality cfg chart ignore_saturn_7th)"
    and "identify_significators chart qa = SigInvalid why"
  shows "\<exists>j. apply_enhanced_judgment hm cfg chart qa ignore_radicality ignore_void_moon
              ignore_combustion ignore_saturn_7th boost = Inr j
           \<and> result j = ''CANNOT JUDGE'' \<and> jconfidence j = 0"
  using assms by (auto simp add: apply_enhanced_judgment_def Let_def)


lemma judgment_perfects:
  assumes "ignore_radicality \<or> fst (check_enhanced_radicality cfg chart ignore_saturn_7th)"
    and "identify_significators chart qa = SigValid querent quesited description"
    and "check_enhanced_perfection hm cfg chart querent quesited boost = Perfects pf"
  shows "(\<forall>e. calculate_enhanced_timing hm chart pf = Inl e \<longrightarrow>
            apply_enhanced_judgment hm cfg chart qa ignore_radicality ignore_void_moon
              ignore_combustion ignore_saturn_7th boost = Inl e)
     \<and> (\<forall>t. calculate_enhanced_timing hm chart pf = Inr t \<longrightarrow>
          (\<exists>j. apply_enhanced_judgment hm cfg chart qa ignore_radicality ignore_void_moon
              ignore_combustion ignore_saturn_7th boost = Inr j
             \<and> result j = (if favorable pf then ''YES'' else ''NO'')
             \<and> jconfidence j = min (solar_adjusted_confidence cfg
                  (analyze_enhanced_solar_factors chart querent quesited ignore_combustion)
                  ignore_combustion) (pconfidence pf)))"
  using assms by (auto simp add: apply_enhanced_judgment_def Let_def)

lemma judgment_denied:
  assumes "ignore_radicality \<or> fst (check_enhanced_radicality cfg chart ignore_saturn_7th)"
    and "identify_significators chart qa = SigValid querent quesited description"
    and "check_enhanced_perfection hm cfg chart querent quesited boost = NoPerfection why"
    and "check_enhanced_denial_conditions cfg chart querent quesited = Some (dc, dr)"
  shows "\<exists>j. apply_enhanced_judgment hm cfg chart qa ignore_radicality ignore_void_moon
              ignore_combustion ignore_saturn_7th boost = Inr j
             \<and> result j = ''NO''
             \<and> jconfidence j = min (solar_adjusted_confidence cfg
                  (analyze_enhanced_solar_factors chart querent quesited ignore_combustion)
                  ignore_combustion) dc"
  using assms by (auto simp add: apply_enhanced_judgment_def Let_def)

lemma judgment_moon:
  assumes "ignore_radicality \<or> fst (check_enhanced_radicality cfg chart ignore_saturn_7th)"
    and "identify_significators chart qa = SigValid querent quesited description"
    and "check_enhanced_perfection hm cfg chart querent quesited boost = NoPerfection why"
    and "check_enhanced_denial_conditions cfg chart querent quesited = None"
    and "mt = check_enhanced_moon_testimony cfg chart querent quesited ignore_void_moon"
    and "conf = solar_adjusted_confidence cfg
                  (analyze_enhanced_solar_factors chart querent quesited ignore_combustion)
                  ignore_combustion"
  shows "\<exists>j. apply_enhanced_judgment hm cfg chart qa ignore_radicality ignore_void_moon
              ignore_combustion ignore_saturn_7th boost = Inr j
             \<and> result j = (if mt_favorable mt then ''YES''
                           else if mt_unfavorable mt then ''NO'' else ''UNCLEAR'')
             \<and> jconfidence j =
                  (if mt_favorable mt
                   then min conf (cap_favorable (lunar_confidence_caps (confidence cfg)))
                   else if mt_unfavorable mt
                   then min conf (cap_unfavorable (lunar_confidence_caps (confidence cfg)))
                   else min conf (cap_neutral (lunar_confidence_caps (confidence cfg))))"
  using assms by (auto simp add: apply_enhanced_judgment_def Let_def)


text \<open>
  C1, as amended. With every confidence value, bonus and penalty of the configuration in
  [0, 100], the confidence of a judgment that \<open>_apply_enhanced_judgment\<close> returns is at
  most 100 for each verdict (YES, NO, UNCLEAR, NOT RADICAL, CANNOT JUDGE), and it is at
  least 0 when moreover the combustion penalty does not exceed the base confidence and
  the exaltation boost is not negative. The function returns whenever the Moon's speed
  from the ephemeris is not zero.
\<close>

theorem confidence_bounds:
  assumes "confidence_values_in_range cfg"
  shows "(\<forall>j. apply_enhanced_judgment hm cfg chart qa ignore_radicality ignore_void_moon
              ignore_combustion ignore_saturn_7th boost = Inr j \<longrightarrow>
            jconfidence j \<le> 100
            \<and> (combustion_penalty (solar (confidence cfg)) \<le> base_confidence (confidence cfg)
                 \<and> 0 \<le> boost \<longrightarrow> 0 \<le> jconfidence j)
            \<and> result j \<in> {''YES'', ''NO'', ''UNCLEAR'', ''NOT RADICAL'', ''CANNOT JUDGE''})
    \<and> (get_real_moon_speed hm (julian_day chart) \<noteq> 0 \<longrightarrow>
          (\<exists>j. apply_enhanced_judgment hm cfg chart qa ignore_radicality ignore_void_moon
              ignore_combustion ignore_saturn_7th boost = Inr j))"
proof -
  let ?J = "apply_enhanced_judgment hm cfg chart qa ignore_radicality ignore_void_moon
              ignore_combustion ignore_saturn_7th boost"
  let ?good = "\<lambda>j. jconfidence j \<le> 100
            \<and> (combustion_penalty (solar (confidence cfg)) \<le> base_confidence (confidence cfg)
                 \<and> 0 \<le> boost \<longrightarrow> 0 \<le> jconfidence j)
            \<and> result j \<in> {''YES'', ''NO'', ''UNCLEAR'', ''NOT RADICAL'', ''CANNOT JUDGE''}"
  have caps: "0 \<le> cap_favorable (lunar_confidence_caps (confidence cfg))"
    "cap_favorable (lunar_confidence_caps (confidence cfg)) \<le> 100"
    "0 \<le> cap_unfavorable (lunar_confidence_caps (confidence cfg))"
    "cap_unfavorable (lunar_confidence_caps (confidence cfg)) \<le> 100"
    "0 \<le> cap_neutral (lunar_confidence_caps (confidence cfg))"
    "cap_neutral (lunar_confidence_caps (confidence cfg)) \<le> 100"
    using assms by (simp_all add: confidence_values_in_range_def Let_def)
  have main: "(\<forall>j. ?J = Inr j \<longrightarrow> ?good j)
      \<and> (get_real_moon_speed hm (julian_day chart) \<noteq> 0 \<longrightarrow> (\<exists>j. ?J = Inr j))"
  proof (cases "\<not> ignore_radicality \<and> \<not> fst (check_enhanced_radicality cfg chart ignore_saturn_7th)")
    case True
    then obtain j where "?J = Inr j" "result j = ''NOT RADICAL''" "jconfidence j = 0"
      using judgment_not_radical [where ignore_void_moon = ignore_void_moon
          and ignore_combustion = ignore_combustion and hm = hm and boost = boost and qa = qa]
      by blast
    then show ?thesis by auto
  next
    case False
    then have nr: "ignore_radicality \<or> fst (check_enhanced_radicality cfg chart ignore_saturn_7th)"
      by blast
    show ?thesis
    proof (cases "identify_significators chart qa")
      case (SigInvalid why)
      from judgment_cannot_judge [OF nr SigInvalid, where ignore_void_moon = ignore_void_moon
          and ignore_combustion = ignore_combustion and hm = hm and boost = boost]
      obtain j where "?J = Inr j" "result j = ''CANNOT JUDGE''" "jconfidence j = 0" by blast
      then show ?thesis by auto
    next
      case sv: (SigValid querent quesited description)
      define conf where "conf = solar_adjusted_confidence cfg
          (analyze_enhanced_solar_factors chart querent quesited ignore_combustion)
          ignore_combustion"
      have c0: "combustion_penalty (solar (confidence cfg)) \<le> base_confidence (confidence cfg)
                 \<longrightarrow> 0 \<le> conf"
        unfolding conf_def using assms by (rule solar_adjusted_confidence_bounds)
      show ?thesis
      proof (cases "check_enhanced_perfection hm cfg chart querent quesited boost")
        case (Perfects pf)
        from perfection_confidence_bounds [OF assms Perfects]
        have pb: "pconfidence pf \<le> 100" "0 \<le> boost \<longrightarrow> 0 \<le> pconfidence pf" by simp_all
        note shape = judgment_perfects [OF nr sv Perfects, where ignore_void_moon = ignore_void_moon
            and ignore_combustion = ignore_combustion, folded conf_def]
        show ?thesis
        proof (cases "calculate_enhanced_timing hm chart pf")
          case (Inl e)
          with shape have "?J = Inl e" by blast
          moreover have "get_real_moon_speed hm (julian_day chart) = 0"
            using Inl timing_returns [of hm chart pf] by auto
          ultimately show ?thesis by simp
        next
          case (Inr t)
          with shape obtain j where j: "?J = Inr j"
            "result j = (if favorable pf then ''YES'' else ''NO'')"
            "jconfidence j = min conf (pconfidence pf)"
            by blast
          have "?good j" using j(2,3) pb c0 by auto
          with j(1) show ?thesis by auto
        qed
      next
        case np: (NoPerfection why)
        show ?thesis
        proof (cases "check_enhanced_denial_conditions cfg chart querent quesited")
          case (Some d)
          obtain dc dr where d: "d = (dc, dr)" by (cases d)
          from denial_confidence_bounds [OF assms Some [unfolded d]]
          have db: "0 \<le> dc" "dc \<le> 100" by simp_all
          from judgment_denied [OF nr sv np Some [unfolded d], where ignore_void_moon = ignore_void_moon
              and ignore_combustion = ignore_combustion, folded conf_def]
          obtain j where j: "?J = Inr j" "result j = ''NO''" "jconfidence j = min conf dc"
            by blast
          have "?good j" using j(2,3) db c0 by auto
          with j(1) show ?thesis by auto
        next
          case None
          define mt where
            "mt = check_enhanced_moon_testimony cfg chart querent quesited ignore_void_moon"
          from judgment_moon [OF nr sv np None mt_def conf_def]
          obtain j where j: "?J = Inr j"
            "result j = (if mt_favorable mt then ''YES''
                         else if mt_unfavorable mt then ''NO'' else ''UNCLEAR'')"
            "jconfidence j =
                  (if mt_favorable mt
                   then min conf (cap_favorable (lunar_confidence_caps (confidence cfg)))
                   else if mt_unfavorable mt
                   then min conf (cap_unfavorable (lunar_confidence_caps (confidence cfg)))
                   else min conf (cap_neutral (lunar_confidence_caps (confidence cfg))))"
            by blast
          have "?good j" using j(2,3) caps c0 by auto
          with j(1) show ?thesis by auto
        qed
      qed
    qed
  qed
  then show ?thesis by simp
qed


lemma direct_perfection_shape:
  assumes "find_applying_aspect chart querent quesited = Some da"
    and "enhanced_perfects_in_sign hm (planets chart querent) (planets chart quesited) da"
    and "rc = check_enhanced_mutual_reception chart querent quesited"
    and "rc \<in> {''mutual_rulership'', ''mutual_exaltation'', ''mixed_reception''}"
  shows "\<exists>pf. check_enhanced_perfection hm cfg chart querent quesited boost = Perfects pf
      \<and> ptype pf = ''direct'' \<and> favorable pf \<and> paspect pf = Some da
      \<and> (rc = ''mutual_rulership'' \<longrightarrow>
            pconfidence pf = direct_with_mutual_rulership (perfection (confidence cfg)))
      \<and> (rc = ''mutual_rulership''
            \<and> (ignore_radicality \<or> fst (check_enhanced_radicality cfg chart ignore_saturn_7th))
            \<and> identify_significators chart qa = SigValid querent quesited description
            \<and> get_real_moon_speed hm (julian_day chart) \<noteq> 0 \<longrightarrow>
          (\<exists>j. apply_enhanced_judgment hm cfg chart qa ignore_radicality ignore_void_moon
                 ignore_combustion ignore_saturn_7th boost = Inr j
               \<and> result j = ''YES''
               \<and> jconfidence j =
                   min (solar_adjusted_confidence cfg
                          (analyze_enhanced_solar_factors chart querent quesited
                             ignore_combustion) ignore_combustion)
                       (direct_with_mutual_rulership (perfection (confidence cfg)))))"
proof -
  from assms(4) have fav: "is_aspect_favorable (aa_aspect da) rc"
    by (auto simp: is_aspect_favorable_def)
  from assms(1,2) assms(3) [symmetric] fav
  obtain pf where pf: "check_enhanced_perfection hm cfg chart querent quesited boost = Perfects pf"
    "ptype pf = ''direct''" "favorable pf" "paspect pf = Some da"
    "rc = ''mutual_rulership'' \<longrightarrow>
       pconfidence pf = direct_with_mutual_rulership (perfection (confidence cfg))"
    by (simp add: check_enhanced_perfection_def Let_def)
  have j: "\<exists>j. apply_enhanced_judgment hm cfg chart qa ignore_radicality ignore_void_moon
                 ignore_combustion ignore_saturn_7th boost = Inr j
               \<and> result j = ''YES''
               \<and> jconfidence j =
                   min (solar_adjusted_confidence cfg
                          (analyze_enhanced_solar_factors chart querent quesited
                             ignore_combustion) ignore_combustion)
                       (direct_with_mutual_rulership (perfection (confidence cfg)))"
    if h: "rc = ''mutual_rulership''
            \<and> (ignore_radicality \<or> fst (check_enhanced_radicality cfg chart ignore_saturn_7th))
            \<and> identify_significators chart qa = SigValid querent quesited description
            \<and> get_real_moon_speed hm (julian_day chart) \<noteq> 0"
  proof -
    from h have nr: "ignore_radicality \<or> fst (check_enhanced_radicality cfg chart ignore_saturn_7th)"
      and sv: "identify_significators chart qa = SigValid querent quesited description"
      and ms: "get_real_moon_speed hm (julian_day chart) \<noteq> 0" and mr: "rc = ''mutual_rulership''"
      by simp_all
    from timing_returns [OF ms] obtain t where t: "calculate_enhanced_timing hm chart pf = Inr t"
      by blast
    from judgment_perfects [OF nr sv pf(1), where ignore_void_moon = ignore_void_moon
        and ignore_combustion = ignore_combustion] t pf(3,5) mr
    show ?thesis by auto
  qed
  from pf j show ?thesis by blast
qed

text \<open>
  C2, as amended. When the significators have an applying direct aspect that perfects
  before either leaves its sign and their reception is mutual rulership, mutual
  exaltation or mixed reception, the perfection check returns a direct perfection marked
  favorable, whatever the aspect type. With mutual rulership its confidence is the
  configured direct_with_mutual_rulership value, and the judgment of a radical chart
  with these significators is YES with the smaller of the running confidence (the base
  confidence after the cazimi bonus or the combustion penalty) and that value.
\<close>

theorem direct_perfection_with_reception:
  assumes "find_applying_aspect chart querent quesited = Some da"
    and "enhanced_perfects_in_sign hm (planets chart querent) (planets chart quesited) da"
    and "rc = check_enhanced_mutual_reception chart querent quesited"
    and "rc \<in> {''mutual_rulership'', ''mutual_exaltation'', ''mixed_reception''}"
  shows "\<exists>pf. check_enhanced_perfection hm cfg chart querent quesited boost = Perfects pf
      \<and> ptype pf = ''direct'' \<and> favorable pf \<and> paspect pf = Some da
      \<and> (rc = ''mutual_rulership'' \<longrightarrow>
            pconfidence pf = direct_with_mutual_rulership (perfection (confidence cfg)))
      \<and> (rc = ''mutual_rulership''
            \<and> (ignore_radicality \<or> fst (check_enhanced_radicality cfg chart ignore_saturn_7th))
            \<and> identify_significators chart qa = SigValid querent quesited description
            \<and> get_real_moon_speed hm (julian_day chart) \<noteq> 0 \<longrightarrow>
          (\<exists>j. apply_enhanced_judgment hm cfg chart qa ignore_radicality ignore_void_moon
                 ignore_combustion ignore_saturn_7th boost = Inr j
               \<and> result j = ''YES''
               \<and> jconfidence j =
                   min (solar_adjusted_confidence cfg
                          (analyze_enhanced_solar_factors chart querent quesited
                             ignore_combustion) ignore_combustion)
                       (direct_with_mutual_rulership (perfection (confidence cfg)))))"
  using assms by (rule direct_perfection_shape)

lemma example_radical:
  "fst (check_enhanced_radicality example_config example_chart False)"
  "fst (check_enhanced_radicality example_config combust_chart False)"
  "fst (check_enhanced_radicality low_base_config combust_chart False)"
  by (simp_all add: check_enhanced_radicality_def example_config_def low_base_config_def
      example_chart_def combust_chart_def example_position_def fmod_def Let_def)

lemma example_significators:
  "\<exists>d. identify_significators example_chart example_question = SigValid MERCURY JUPITER d"
  "\<exists>d. identify_significators combust_chart example_question = SigValid MERCURY JUPITER d"
  by (simp_all add: identify_significators_def example_chart_def combust_chart_def
      example_question_def)

lemma example_direct_aspect:
  "find_applying_aspect example_chart MERCURY JUPITER = Some example_square"
  "find_applying_aspect combust_chart MERCURY JUPITER = Some example_square"
  by (simp_all add: find_applying_aspect_def example_chart_def combust_chart_def
      example_square_def)

lemma example_perfects_in_sign:
  "enhanced_perfects_in_sign example_math (planets example_chart MERCURY)
     (planets example_chart JUPITER) example_square"
  "enhanced_perfects_in_sign example_math (planets combust_chart MERCURY)
     (planets combust_chart JUPITER) example_square"
  by (simp_all add: enhanced_perfects_in_sign_def example_chart_def combust_chart_def
      example_position_def example_square_def example_math_def truthy_and_gt_def fmod_def
      Let_def)

lemma example_reception:
  "check_enhanced_mutual_reception example_chart MERCURY JUPITER = ''mutual_rulership''"
  "check_enhanced_mutual_reception combust_chart MERCURY JUPITER = ''mutual_rulership''"
  by (simp_all add: check_enhanced_mutual_reception_def example_chart_def combust_chart_def
      example_position_def)

lemma example_moon_speed:
  "get_real_moon_speed example_math (julian_day example_chart) \<noteq> 0"
  "get_real_moon_speed example_math (julian_day combust_chart) \<noteq> 0"
  by (simp_all add: example_math_def)

lemma example_solar_counts:
  "planets_with_condition example_chart CAZIMI = []"
  "planets_with_condition example_chart COMBUSTION = []"
  "planets_with_condition example_chart UNDER_BEAMS = []"
  "planets_with_condition combust_chart CAZIMI = []"
  "planets_with_condition combust_chart COMBUSTION = [VENUS]"
  "planets_with_condition combust_chart UNDER_BEAMS = []"
  by (simp_all add: planets_with_condition_def planet_list_def example_chart_def
      combust_chart_def free_analysis_def combust_venus_def)

lemma example_running_confidence:
  "solar_adjusted_confidence example_config
     (analyze_enhanced_solar_factors example_chart MERCURY JUPITER False) False = 100"
  "solar_adjusted_confidence example_config
     (analyze_enhanced_solar_factors combust_chart MERCURY JUPITER False) False = 90"
  "solar_adjusted_confidence low_base_config
     (analyze_enhanced_solar_factors combust_chart MERCURY JUPITER False) False = - 5"
  by (simp_all add: solar_adjusted_confidence_def analyze_enhanced_solar_factors_def
      example_solar_counts example_config_def low_base_config_def Let_def)

lemma example_in_range:
  "confidence_values_in_range example_config" "confidence_values_in_range low_base_config"
  by (simp_all add: confidence_values_in_range_def example_config_def low_base_config_def)

lemma example_rulership_confidence:
  "direct_with_mutual_rulership (perfection (confidence example_config)) = 95"
  "direct_with_mutual_rulership (perfection (confidence low_base_config)) = 95"
  by (simp_all add: example_config_def low_base_config_def)

theorem direct_perfection_with_reception_witness:
  "find_applying_aspect example_chart MERCURY JUPITER = Some example_square
   \<and> aa_aspect example_square = SQUARE
   \<and> enhanced_perfects_in_sign example_math (planets example_chart MERCURY)
        (planets example_chart JUPITER) example_square
   \<and> check_enhanced_mutual_reception example_chart MERCURY JUPITER = ''mutual_rulership''
   \<and> judged_result (apply_enhanced_judgment example_math example_config example_chart
        example_question False False False False 15) = Some ''YES''
   \<and> judged_confidence (apply_enhanced_judgment example_math example_config example_chart
        example_question False False False False 15) = Some 95"
proof -
  obtain d where d: "identify_significators example_chart example_question
      = SigValid MERCURY JUPITER d"
    using example_significators(1) by blast
  have m: "''mutual_rulership'' \<in> {''mutual_rulership'', ''mutual_exaltation'', ''mixed_reception''}"
    by simp
  from direct_perfection_with_reception [OF example_direct_aspect(1) example_perfects_in_sign(1)
      example_reception(1) [symmetric] m, of example_config 15 False False example_question d
      False False]
    example_radical(1) d example_moon_speed(1)
  obtain j where "apply_enhanced_judgment example_math example_config example_chart
        example_question False False False False 15 = Inr j" "result j = ''YES''"
    "jconfidence j = min (solar_adjusted_confidence example_config
         (analyze_enhanced_solar_factors example_chart MERCURY JUPITER False) False)
         (direct_with_mutual_rulership (perfection (confidence example_config)))"
    by blast
  then have "judged_result (apply_enhanced_judgment example_math example_config example_chart
        example_question False False False False 15) = Some ''YES''
   \<and> judged_confidence (apply_enhanced_judgment example_math example_config example_chart
        example_question False False False False 15) = Some 95"
    by (simp add: judged_result_def judged_confidence_def example_running_confidence
        example_rulership_confidence)
  with example_direct_aspect(1) example_perfects_in_sign(1) example_reception(1)
  show ?thesis by (simp add: example_square_def)
qed

lemma combust_judgment:
  "\<exists>j. apply_enhanced_judgment example_math cfg combust_chart example_question
          False False False False 15 = Inr j
       \<and> result j = ''YES''
       \<and> jconfidence j = min (solar_adjusted_confidence cfg
            (analyze_enhanced_solar_factors combust_chart MERCURY JUPITER False) False)
            (direct_with_mutual_rulership (perfection (confidence cfg)))"
  if "fst (check_enhanced_radicality cfg combust_chart False)"
proof -
  obtain d where d: "identify_significators combust_chart example_question
      = SigValid MERCURY JUPITER d"
    using example_significators(2) by blast
  have m: "''mutual_rulership'' \<in> {''mutual_rulership'', ''mutual_exaltation'', ''mixed_reception''}"
    by simp
  from direct_perfection_shape [OF example_direct_aspect(2) example_perfects_in_sign(2)
      example_reception(2) [symmetric] m, of cfg 15 False False example_question d
      False False]
    that d example_moon_speed(2)
  show ?thesis by blast
qed

text \<open>
  C2 as stated fails for the confidence: in the example chart with Venus combust, the
  square with mutual rulership gives YES with confidence 90, not the configured 95.
\<close>

theorem rulership_confidence_counterexample:
  "find_applying_aspect combust_chart MERCURY JUPITER = Some example_square
   \<and> enhanced_perfects_in_sign example_math (planets combust_chart MERCURY)
        (planets combust_chart JUPITER) example_square
   \<and> check_enhanced_mutual_reception combust_chart MERCURY JUPITER = ''mutual_rulership''
   \<and> direct_with_mutual_rulership (perfection (confidence example_config)) = 95
   \<and> judged_result (apply_enhanced_judgment example_math example_config combust_chart
        example_question False False False False 15) = Some ''YES''
   \<and> judged_confidence (apply_enhanced_judgment example_math example_config combust_chart
        example_question False False False False 15) = Some 90"
proof -
  from combust_judgment [OF example_radical(2)]
  have "judged_result (apply_enhanced_judgment example_math example_config combust_chart
        example_question False False False False 15) = Some ''YES''
   \<and> judged_confidence (apply_enhanced_judgment example_math example_config combust_chart
        example_question False False False False 15) = Some 90"
    by (auto simp: judged_result_def judged_confidence_def example_running_confidence
        example_rulership_confidence)
  with example_direct_aspect(2) example_perfects_in_sign(2) example_reception(2)
    example_rulership_confidence(1)
  show ?thesis by simp
qed

text \<open>
  C1 as stated fails: with a base confidence of 5 and a combustion penalty of 10, both
  in [0, 100], the same chart is judged YES with confidence -5.
\<close>

theorem negative_confidence_counterexample:
  "confidence_values_in_range low_base_config
   \<and> judged_result (apply_enhanced_judgment example_math low_base_config combust_chart
        example_question False False False False 15) = Some ''YES''
   \<and> judged_confidence (apply_enhanced_judgment example_math low_base_config combust_chart
        example_question False False False False 15) = Some (- 5)"
proof -
  from combust_judgment [OF example_radical(3)]
  have "judged_result (apply_enhanced_judgment example_math low_base_config combust_chart
        example_question False False False False 15) = Some ''YES''
   \<and> judged_confidence (apply_enhanced_judgment example_math low_base_config combust_chart
        example_question False False False False 15) = Some (- 5)"
    by (auto simp: judged_result_def judged_confidence_def example_running_confidence
        example_rulership_confidence)
  with example_in_range(2) show ?thesis by simp
qed

theorem confidence_bounds_witness:
  "confidence_values_in_range example_config
   \<and> combustion_penalty (solar (confidence example_config))
       \<le> base_confidence (confidence example_config)
   \<and> judged_confidence (apply_enhanced_judgment example_math example_config combust_chart
        example_question False False False False 15) = Some 90
   \<and> judged_result (apply_enhanced_judgment example_math example_config combust_chart
        example_question False False False False 15) = Some ''YES''"
proof -
  from combust_judgment [OF example_radical(2)]
  obtain j where j: "apply_enhanced_judgment example_math example_config combust_chart
        example_question False False False False 15 = Inr j" "result j = ''YES''"
    "jconfidence j = 90"
    by (auto simp: example_running_confidence example_rulership_confidence)
  have p: "combustion_penalty (solar (confidence example_config))
       \<le> base_confidence (confidence example_config)"
    by (simp add: example_config_def)
  from confidence_bounds [OF example_in_range(1), of example_math combust_chart example_question
      False False False False 15] j(1) p
  have "0 \<le> jconfidence j \<and> jconfidence j \<le> 100" by simp
  with j p example_in_range(1) show ?thesis
    by (simp add: judged_result_def judged_confidence_def)
qed

end
